theory Spec2Isabelle
  imports Complex_Main "HOL-Library.Log_Nat"
begin

unbundle bit_operations_syntax

section \<open>Go values\<close>

subsection \<open>float64: IEEE 754 binary64 with round-to-nearest-even\<close>

text \<open>
  A \<open>float64\<close> is a finite number in sign-magnitude form (so that the two zeros are
  distinct values, as in the machine format), an infinity with its sign, or a NaN.
  The magnitude of a finite value is a rational; the values a program can hold are
  those with a magnitude that \<open>round64\<close> leaves unchanged and that lies below
  \<open>2 ^ 1024\<close>.
\<close>

datatype float64 = Finite bool rat | Infinity bool | NaN

definition pow2 :: "int \<Rightarrow> rat" where
  "pow2 e = (if 0 \<le> e then 2 ^ nat e else 1 / 2 ^ nat (- e))"

text \<open>\<open>ilog2 x\<close> is the binary exponent of a positive magnitude \<open>x\<close>: \<open>2 ^ ilog2 x \<le> x < 2 ^ (ilog2 x + 1)\<close>.\<close>

definition ilog2 :: "rat \<Rightarrow> int" where
  "ilog2 x = (if 1 \<le> x then bitlen \<lfloor>x\<rfloor> - 1 else - bitlen (\<lceil>1 / x\<rceil> - 1))"

definition round_half_even :: "rat \<Rightarrow> int" where
  "round_half_even x =
     (let f = \<lfloor>x\<rfloor>; d = x - of_int f
      in if d < 1 / 2 then f else if 1 / 2 < d then f + 1 else if even f then f else f + 1)"

text \<open>
  Rounding of a magnitude to 53 significant bits, with the exponent of the last place
  never below \<open>-1074\<close> (gradual underflow); the exponent is not bounded above here,
  overflow is decided by \<open>to_float64\<close>.
\<close>

definition round64 :: "rat \<Rightarrow> rat" where
  "round64 x =
     (if x \<le> 0 then 0
      else let e = max (ilog2 x - 52) (- 1074)
           in of_int (round_half_even (x / pow2 e)) * pow2 e)"

definition to_float64 :: "bool \<Rightarrow> rat \<Rightarrow> float64" where
  "to_float64 s x = (let r = round64 x in if 2 ^ 1024 \<le> r then Infinity s else Finite s r)"

text \<open>A decimal constant of the source, or a decimal number parsed at run time.\<close>

definition float64_of_rat :: "rat \<Rightarrow> float64" where
  "float64_of_rat q = to_float64 (q < 0) \<bar>q\<bar>"

fun float64_mul :: "float64 \<Rightarrow> float64 \<Rightarrow> float64" where
  "float64_mul (Finite s x) (Finite t y) = to_float64 (s \<noteq> t) (x * y)"
| "float64_mul (Finite s x) (Infinity t) = (if x = 0 then NaN else Infinity (s \<noteq> t))"
| "float64_mul (Infinity s) (Finite t y) = (if y = 0 then NaN else Infinity (s \<noteq> t))"
| "float64_mul (Infinity s) (Infinity t) = Infinity (s \<noteq> t)"
| "float64_mul NaN _ = NaN"
| "float64_mul _ NaN = NaN"

fun float64_div :: "float64 \<Rightarrow> float64 \<Rightarrow> float64" where
  "float64_div (Finite s x) (Finite t y) =
     (if y = 0 then (if x = 0 then NaN else Infinity (s \<noteq> t)) else to_float64 (s \<noteq> t) (x / y))"
| "float64_div (Finite s x) (Infinity t) = Finite (s \<noteq> t) 0"
| "float64_div (Infinity s) (Finite t y) = Infinity (s \<noteq> t)"
| "float64_div (Infinity s) (Infinity t) = NaN"
| "float64_div NaN _ = NaN"
| "float64_div _ NaN = NaN"

text \<open>The number a finite value denotes.\<close>

fun valof :: "float64 \<Rightarrow> rat" where
  "valof (Finite s x) = (if s then - x else x)"
| "valof _ = 0"

text \<open>A finite value, possibly the negative zero, that denotes a number from 0 to 1.\<close>

definition in_unit_interval :: "float64 \<Rightarrow> bool" where
  "in_unit_interval h =
     (case h of Finite s x \<Rightarrow> 0 \<le> x \<and> 0 \<le> valof h \<and> valof h \<le> 1 | _ \<Rightarrow> False)"

subsection \<open>int and the conversions between int and float64\<close>

text \<open>
  Go's \<open>int\<close> is 32 bits wide in the Makefile's \<open>armbuild\<close> target (GOARCH=arm) and 64
  bits wide in a native build on a 64-bit host. The program does no arithmetic on
  \<open>int\<close>; values are modelled as integers and the width enters where a conversion
  checks the range. Converting a float64 that the integer type cannot represent
  succeeds with an implementation-dependent value, which is a parameter here.
\<close>

datatype int_size = Int32 | Int64

fun int_bits :: "int_size \<Rightarrow> nat" where
  "int_bits Int32 = 32"
| "int_bits Int64 = 64"

record platform =
  int_size :: int_size
  int_of_unrepresentable :: "float64 \<Rightarrow> int"

text \<open>
  A 64-bit platform (GOARCH=amd64), where the conversion instruction answers every
  unrepresentable operand with the least integer.
\<close>

definition amd64 :: platform where
  "amd64 = \<lparr> int_size = Int64, int_of_unrepresentable = (\<lambda>f. - (2 ^ 63)) \<rparr>"

definition in_range :: "nat \<Rightarrow> int \<Rightarrow> bool" where
  "in_range bits i = (- (2 ^ (bits - 1)) \<le> i \<and> i < 2 ^ (bits - 1))"

text \<open>\<open>int(f)\<close>: the fraction is discarded (truncation towards zero).\<close>

fun int_of_float64 :: "platform \<Rightarrow> float64 \<Rightarrow> int" where
  "int_of_float64 pf (Finite s x) =
     (let t = (if s then - \<lfloor>x\<rfloor> else \<lfloor>x\<rfloor>)
      in if in_range (int_bits (int_size pf)) t then t else int_of_unrepresentable pf (Finite s x))"
| "int_of_float64 pf f = int_of_unrepresentable pf f"

text \<open>\<open>float64(i)\<close>: the nearest float64.\<close>

definition float64_of_int :: "int \<Rightarrow> float64" where
  "float64_of_int i = to_float64 (i < 0) (of_int \<bar>i\<bar>)"

text \<open>\<open>int64(i)\<close> of an \<open>int\<close>: every \<open>int\<close> is an \<open>int64\<close>, the value is kept.\<close>

definition int64_of_int :: "int \<Rightarrow> int" where
  "int64_of_int i = i"

datatype panic = nil_dereference | index_out_of_range

section \<open>The provider responses and the Weather record\<close>

text \<open>
  Modelled from the spec: the types of package \<open>owm\<close>
  (github.com/briandowns/openweathermap), which are declared outside this repository.
  The records have the fields of the provider-A response of the first scenario, which are
  the fields that \<open>OWMToWeather\<close> reads, with the types that its assignments to the
  fields of \<open>Weather\<close> force.
\<close>

record owm_Main =
  Temp :: float64
  Pressure :: float64
  Humidity :: int

record owm_Weather =
  Main :: string

record owm_Wind =
  Speed :: float64
  Deg :: float64

record owm_Clouds =
  All' :: int

record owm_Rain =
  ThreeH :: float64

record owm_CurrentWeatherData =
  Main :: owm_Main
  Weather :: "owm_Weather list"
  Wind :: owm_Wind
  Clouds :: owm_Clouds
  Rain :: owm_Rain

record owm_UV =
  Value :: float64

record Currently =
  Time :: int
  Summary :: string
  Icon :: string
  Temperature :: float64
  Pressure :: float64
  Humidity :: float64
  WindSpeed :: float64
  WindBearing :: int
  PrecipIntensity :: float64
  CloudCover :: float64
  UVIndex :: float64

record DarkSkyForecast =
  Latitude :: float64
  Longitude :: float64
  TimeZone :: string
  Currently :: Currently

text \<open>The unified record. Its field names are the unqualified ones from here on.\<close>

record Weather =
  Temperature :: float64
  Pressure :: float64
  Humidity :: int
  Weather :: string
  WindSpeed :: float64
  WindDeg :: float64
  Cloudiness :: int
  Rainfall :: float64
  Snowfall :: float64
  UV :: float64

section \<open>The adapters\<close>

text \<open>
  Both source files define \<open>OWMToWeather\<close> and \<open>DSToWeather\<close> with the same text.
  A pointer argument is an option (\<open>None\<close> is \<open>nil\<close>). The operands of the composite
  literal are taken in the order in which they are written, so the first failing one
  decides the panic. Fields that the literal leaves out have the zero value.
\<close>

definition OWMToWeather ::
    "owm_CurrentWeatherData option \<Rightarrow> owm_UV option \<Rightarrow> panic + Weather" where
  "OWMToWeather w uv =
     (case w of
        None \<Rightarrow> Inl nil_dereference
      | Some w \<Rightarrow>
          (case owm_CurrentWeatherData.Weather w of
             [] \<Rightarrow> Inl index_out_of_range
           | w0 # _ \<Rightarrow>
               (case uv of
                  None \<Rightarrow> Inl nil_dereference
                | Some uv \<Rightarrow>
                    Inr \<lparr> Temperature = Temp (owm_CurrentWeatherData.Main w),
                          Pressure = owm_Main.Pressure (owm_CurrentWeatherData.Main w),
                          Humidity = owm_Main.Humidity (owm_CurrentWeatherData.Main w),
                          Weather = owm_Weather.Main w0,
                          WindSpeed = Speed (Wind w),
                          WindDeg = Deg (Wind w),
                          Cloudiness = All' (Clouds w),
                          Rainfall = float64_div (ThreeH (Rain w)) (float64_of_rat 3),
                          Snowfall = Finite False 0,
                          UV = Value uv \<rparr>)))"

definition DSToWeather :: "platform \<Rightarrow> DarkSkyForecast option \<Rightarrow> panic + Weather" where
  "DSToWeather pf f =
     (case f of
        None \<Rightarrow> Inl nil_dereference
      | Some f \<Rightarrow>
          Inr \<lparr> Temperature = Currently.Temperature (Currently f),
                Pressure = Currently.Pressure (Currently f),
                Humidity =
                  int_of_float64 pf
                    (float64_mul (Currently.Humidity (Currently f)) (float64_of_rat 100)),
                Weather = Summary (Currently f),
                WindSpeed = Currently.WindSpeed (Currently f),
                WindDeg = float64_of_int (WindBearing (Currently f)),
                Cloudiness =
                  int_of_float64 pf (float64_mul (CloudCover (Currently f)) (float64_of_rat 100)),
                Rainfall = PrecipIntensity (Currently f),
                Snowfall = Finite False 0,
                UV = Finite False 0 \<rparr>)"

section \<open>The process: log, metrics backend, standard output\<close>

text \<open>
  An \<open>error\<close> value of Go is either a value that a library call of the environment
  returned (a network failure, a malformed body, an invalid tag) or the type error that
  the JSON decoder builds.
\<close>

datatype go_error = Err string | UnmarshalTypeError string string

text \<open>
  A log entry is the format string with its argument. \<open>Errorf\<close> returns; \<open>Fatalf\<close> and
  \<open>Fatal\<close> write the entry and then end the process with exit status 1.
\<close>

datatype log_entry = Errorf string go_error | Fatalf string go_error | Fatal string

datatype status = Running | Exited int | Panicked panic

record measure =
  name :: string
  description :: string
  unit :: string

datatype measurement = Float64M measure float64 | Int64M measure int

text \<open>One call of \<open>stats.Record\<close>: the tags of its context and its measurements.\<close>

record batch =
  tags :: "(string \<times> string) list"
  measurements :: "measurement list"

datatype printf = Printf string string float64 float64 int float64

record process =
  status :: status
  owmw :: owm_CurrentWeatherData
  owmuv :: owm_UV
  logged :: "log_entry list"
  recorded :: "batch list"
  printed :: "printf list"

definition MeasureTemperature :: string where "MeasureTemperature = ''temperature''"
definition MeasurePressure :: string where "MeasurePressure = ''pressure''"
definition MeasureHumidity :: string where "MeasureHumidity = ''humidity''"
definition MeasureWindSpeed :: string where "MeasureWindSpeed = ''windspeed''"
definition MeasureWindDeg :: string where "MeasureWindDeg = ''winddeg''"

definition TemperatureUnit :: string where "TemperatureUnit = ''C''"
definition PressureUnit :: string where "PressureUnit = ''hPa''"
definition HumidityUnit :: string where "HumidityUnit = ''%''"
definition WindSpeedUnit :: string where "WindSpeedUnit = ''mps''"
definition WindDegUnit :: string where "WindDegUnit = ''degree''"

definition MTemperature :: measure where
  "MTemperature =
     \<lparr> name = MeasureTemperature, description = ''air temperature'', unit = TemperatureUnit \<rparr>"

definition MPressure :: measure where
  "MPressure =
     \<lparr> name = MeasurePressure, description = ''barometric pressure'', unit = PressureUnit \<rparr>"

definition MHumidity :: measure where
  "MHumidity = \<lparr> name = MeasureHumidity, description = ''air humidity'', unit = HumidityUnit \<rparr>"

definition MWindSpeed :: measure where
  "MWindSpeed = \<lparr> name = MeasureWindSpeed, description = ''wind speed'', unit = WindSpeedUnit \<rparr>"

definition MWindDeg :: measure where
  "MWindDeg =
     \<lparr> name = MeasureWindDeg, description = ''wind degree from North'', unit = WindDegUnit \<rparr>"

subsection \<open>Package tag of OpenCensus\<close>

text \<open>
  Package go.opencensus.io/tag is outside the repository. \<open>tag.New\<close> with the one
  mutator \<open>tag.Upsert k v\<close> on the empty background context is modelled as the library
  documents it: the value must have at most 255 bytes, each a printable ASCII character
  (32 to 126); then the new context holds the one tag \<open>k = v\<close>.
\<close>

definition checkValue :: "string \<Rightarrow> bool" where
  "checkValue v =
     (length v \<le> 255 \<and> list_all (\<lambda>c. 32 \<le> (of_char c :: nat) \<and> (of_char c :: nat) \<le> 126) v)"

definition errInvalidValue :: go_error where
  "errInvalidValue =
     Err ''invalid value: only ASCII characters accepted; max length must be 255 characters''"

definition tag_New_Upsert :: "string \<Rightarrow> string \<Rightarrow> go_error + (string \<times> string) list" where
  "tag_New_Upsert k v = (if checkValue v then Inr [(k, v)] else Inl errInvalidValue)"

definition KeyNodeId :: string where "KeyNodeId = ''node_id''"

subsection \<open>RecordMeasurement\<close>

definition RecordMeasurement ::
    "string \<Rightarrow> Weather option \<Rightarrow> process \<Rightarrow> panic + (go_error option \<times> process)" where
  "RecordMeasurement id' w s =
     (case tag_New_Upsert KeyNodeId id' of
        Inl err \<Rightarrow>
          Inr (Some err, s\<lparr> logged := logged s @ [Errorf ''failed to insert key: %v'' err] \<rparr>)
      | Inr ctx \<Rightarrow>
          (case w of
             None \<Rightarrow> Inl nil_dereference
           | Some w \<Rightarrow>
               Inr (None,
                    s\<lparr> recorded := recorded s @
                         [\<lparr> tags = ctx,
                            measurements =
                              [Float64M MTemperature (Temperature w),
                               Float64M MPressure (Pressure w),
                               Int64M MHumidity (int64_of_int (Humidity w)),
                               Float64M MWindSpeed (WindSpeed w)] \<rparr>] \<rparr>)))"

section \<open>The DarkSky call\<close>

subsection \<open>Package encoding/json of the Go standard library\<close>

text \<open>
  \<open>json.Decoder.Decode\<close> first reads one complete JSON value from the body; that fails
  with the reader's error or with a syntax error. The value read is a \<open>json\<close> tree. A
  number keeps its sign, its magnitude and whether its literal is a plain integer
  (digits only, no fraction and no exponent); a string is the decoded text.
\<close>

datatype json =
    JNull
  | JBool bool
  | JNumber bool rat bool
  | JString string
  | JArray "json list"
  | JObject "(string \<times> json) list"

fun json_kind :: "json \<Rightarrow> string" where
  "json_kind JNull = ''null''"
| "json_kind (JBool _) = ''bool''"
| "json_kind (JNumber _ _ _) = ''number''"
| "json_kind (JString _) = ''string''"
| "json_kind (JArray _) = ''array''"
| "json_kind (JObject _) = ''object''"

text \<open>
  Then the value is stored into the struct. An object member is stored into the field
  whose tag equals its key or matches it under the decoder's case folding
  (\<open>equalFoldRight\<close>: ASCII letters regardless of case, and U+017F for \<open>s\<close>, U+212A for
  \<open>k\<close>); a member that matches no field is skipped; a field without a member keeps its
  value; \<open>null\<close> stores nothing. A value of the wrong kind, a number that is not a
  plain integer or is out of range for an integer field, and a number beyond the float64
  range save an \<open>UnmarshalTypeError\<close>; decoding goes on, and the first saved error is the
  result.
\<close>

definition caseMask :: nat where "caseMask = 223"

fun equalFoldRight :: "string \<Rightarrow> string \<Rightarrow> bool" where
  "equalFoldRight [] t = (t = [])"
| "equalFoldRight (sb # s) [] = False"
| "equalFoldRight (sb # s) (tb # t) =
     (if (of_char tb :: nat) < 128 then
        (sb = tb \<or>
         (let sbUpper = (of_char sb :: nat) AND caseMask
          in 65 \<le> sbUpper \<and> sbUpper \<le> 90 \<and> sbUpper = (of_char tb :: nat) AND caseMask))
        \<and> equalFoldRight s t
      else if sb = CHR ''s'' \<or> sb = CHR ''S'' then
        (case tb # t of
           c1 # c2 # t' \<Rightarrow> c1 = CHR 0xC5 \<and> c2 = CHR 0xBF \<and> equalFoldRight s t'
         | _ \<Rightarrow> False)
      else if sb = CHR ''k'' \<or> sb = CHR ''K'' then
        (case tb # t of
           c1 # c2 # c3 # t' \<Rightarrow>
             c1 = CHR 0xE2 \<and> c2 = CHR 0x84 \<and> c3 = CHR 0xAA \<and> equalFoldRight s t'
         | _ \<Rightarrow> False)
      else False)"

definition field_matches :: "string \<Rightarrow> string \<Rightarrow> bool" where
  "field_matches tag key = (tag = key \<or> equalFoldRight tag key)"

definition saveError :: "go_error \<Rightarrow> go_error option \<Rightarrow> go_error option" where
  "saveError e saved = (case saved of None \<Rightarrow> Some e | Some e0 \<Rightarrow> Some e0)"

fun decode_float64 :: "json \<Rightarrow> float64 \<times> go_error option \<Rightarrow> float64 \<times> go_error option" where
  "decode_float64 JNull (old, saved) = (old, saved)"
| "decode_float64 (JNumber neg mag plain) (old, saved) =
     (case to_float64 neg mag of
        Finite s x \<Rightarrow> (Finite s x, saved)
      | _ \<Rightarrow> (old, saveError (UnmarshalTypeError ''number'' ''float64'') saved))"
| "decode_float64 v (old, saved) = (old, saveError (UnmarshalTypeError (json_kind v) ''float64'') saved)"

fun decode_int ::
    "nat \<Rightarrow> string \<Rightarrow> json \<Rightarrow> int \<times> go_error option \<Rightarrow> int \<times> go_error option" where
  "decode_int bits ty JNull (old, saved) = (old, saved)"
| "decode_int bits ty (JNumber neg mag plain) (old, saved) =
     (let n = (if neg then - \<lfloor>mag\<rfloor> else \<lfloor>mag\<rfloor>)
      in if plain \<and> in_range 64 n \<and> in_range bits n then (n, saved)
         else (old, saveError (UnmarshalTypeError ''number'' ty) saved))"
| "decode_int bits ty v (old, saved) = (old, saveError (UnmarshalTypeError (json_kind v) ty) saved)"

fun decode_string :: "json \<Rightarrow> string \<times> go_error option \<Rightarrow> string \<times> go_error option" where
  "decode_string JNull (old, saved) = (old, saved)"
| "decode_string (JString x) (old, saved) = (x, saved)"
| "decode_string v (old, saved) = (old, saveError (UnmarshalTypeError (json_kind v) ''string'') saved)"

definition decode_Currently_member ::
    "platform \<Rightarrow> Currently \<times> go_error option \<Rightarrow> string \<times> json \<Rightarrow> Currently \<times> go_error option" where
  "decode_Currently_member pf acc kv =
     (let c = fst acc; saved = snd acc; key = fst kv; v = snd kv
      in if field_matches ''time'' key then
           (let (x, e) = decode_int 64 ''int64'' v (Time c, saved) in (c\<lparr> Time := x \<rparr>, e))
         else if field_matches ''summary'' key then
           (let (x, e) = decode_string v (Summary c, saved) in (c\<lparr> Summary := x \<rparr>, e))
         else if field_matches ''icon'' key then
           (let (x, e) = decode_string v (Icon c, saved) in (c\<lparr> Icon := x \<rparr>, e))
         else if field_matches ''temperature'' key then
           (let (x, e) = decode_float64 v (Currently.Temperature c, saved)
            in (c\<lparr> Currently.Temperature := x \<rparr>, e))
         else if field_matches ''pressure'' key then
           (let (x, e) = decode_float64 v (Currently.Pressure c, saved)
            in (c\<lparr> Currently.Pressure := x \<rparr>, e))
         else if field_matches ''humidity'' key then
           (let (x, e) = decode_float64 v (Currently.Humidity c, saved)
            in (c\<lparr> Currently.Humidity := x \<rparr>, e))
         else if field_matches ''windSpeed'' key then
           (let (x, e) = decode_float64 v (Currently.WindSpeed c, saved)
            in (c\<lparr> Currently.WindSpeed := x \<rparr>, e))
         else if field_matches ''windBearing'' key then
           (let (x, e) = decode_int (int_bits (int_size pf)) ''int'' v (WindBearing c, saved)
            in (c\<lparr> WindBearing := x \<rparr>, e))
         else if field_matches ''precipIntensity'' key then
           (let (x, e) = decode_float64 v (PrecipIntensity c, saved)
            in (c\<lparr> PrecipIntensity := x \<rparr>, e))
         else if field_matches ''cloudCover'' key then
           (let (x, e) = decode_float64 v (CloudCover c, saved) in (c\<lparr> CloudCover := x \<rparr>, e))
         else if field_matches ''uvIndex'' key then
           (let (x, e) = decode_float64 v (UVIndex c, saved) in (c\<lparr> UVIndex := x \<rparr>, e))
         else (c, saved))"

fun decode_Currently ::
    "platform \<Rightarrow> json \<Rightarrow> Currently \<times> go_error option \<Rightarrow> Currently \<times> go_error option" where
  "decode_Currently pf JNull (c, saved) = (c, saved)"
| "decode_Currently pf (JObject members) (c, saved) =
     foldl (decode_Currently_member pf) (c, saved) members"
| "decode_Currently pf v (c, saved) = (c, saveError (UnmarshalTypeError (json_kind v) ''struct'') saved)"

definition decode_DarkSkyForecast_member ::
    "platform \<Rightarrow> DarkSkyForecast \<times> go_error option \<Rightarrow> string \<times> json \<Rightarrow>
     DarkSkyForecast \<times> go_error option" where
  "decode_DarkSkyForecast_member pf acc kv =
     (let f = fst acc; saved = snd acc; key = fst kv; v = snd kv
      in if field_matches ''latitude'' key then
           (let (x, e) = decode_float64 v (Latitude f, saved) in (f\<lparr> Latitude := x \<rparr>, e))
         else if field_matches ''longitude'' key then
           (let (x, e) = decode_float64 v (Longitude f, saved) in (f\<lparr> Longitude := x \<rparr>, e))
         else if field_matches ''timezone'' key then
           (let (x, e) = decode_string v (TimeZone f, saved) in (f\<lparr> TimeZone := x \<rparr>, e))
         else if field_matches ''currently'' key then
           (let (x, e) = decode_Currently pf v (Currently f, saved) in (f\<lparr> Currently := x \<rparr>, e))
         else (f, saved))"

fun decode_DarkSkyForecast ::
    "platform \<Rightarrow> json \<Rightarrow> DarkSkyForecast \<times> go_error option \<Rightarrow>
     DarkSkyForecast \<times> go_error option" where
  "decode_DarkSkyForecast pf JNull (f, saved) = (f, saved)"
| "decode_DarkSkyForecast pf (JObject members) (f, saved) =
     foldl (decode_DarkSkyForecast_member pf) (f, saved) members"
| "decode_DarkSkyForecast pf v (f, saved) =
     (f, saveError (UnmarshalTypeError (json_kind v) ''main.DarkSkyForecast'') saved)"

text \<open>\<open>var f DarkSkyForecast\<close>: every field has the zero value.\<close>

definition zero_Currently :: Currently where
  "zero_Currently =
     \<lparr> Time = 0, Summary = [], Icon = [], Currently.Temperature = Finite False 0,
       Currently.Pressure = Finite False 0, Currently.Humidity = Finite False 0,
       Currently.WindSpeed = Finite False 0, WindBearing = 0, PrecipIntensity = Finite False 0,
       CloudCover = Finite False 0, UVIndex = Finite False 0 \<rparr>"

definition zero_DarkSkyForecast :: DarkSkyForecast where
  "zero_DarkSkyForecast =
     \<lparr> Latitude = Finite False 0, Longitude = Finite False 0, TimeZone = [],
       Currently = zero_Currently \<rparr>"

text \<open>
  The body of a response as the decoder meets it: the error of reading it or of its
  syntax, or the first JSON value in it.
\<close>

record http_Response =
  StatusCode :: int
  Body :: "go_error + json"

definition Decode :: "platform \<Rightarrow> go_error + json \<Rightarrow> DarkSkyForecast \<Rightarrow> go_error + DarkSkyForecast" where
  "Decode pf body f =
     (case body of
        Inl err \<Rightarrow> Inl err
      | Inr v \<Rightarrow>
          (case decode_DarkSkyForecast pf v (f, None) of
             (f', None) \<Rightarrow> Inr f'
           | (f', Some err) \<Rightarrow> Inl err))"

subsection \<open>CallDarkSkyForecast\<close>

text \<open>
  The argument \<open>get\<close> is what \<open>http.Get\<close> returns for the request: an error, or a
  response whatever its status code. This is the function of the file that records
  metrics; \<open>main_go_CallDarkSkyForecast\<close> is the one of \<open>main.go\<close>.
\<close>

definition CallDarkSkyForecast ::
    "platform \<Rightarrow> go_error + http_Response \<Rightarrow> process \<Rightarrow> (go_error + DarkSkyForecast) \<times> process" where
  "CallDarkSkyForecast pf get s =
     (case get of
        Inl err \<Rightarrow>
          (Inl err,
           s\<lparr> logged := logged s @ [Errorf ''failed to call DarkSky forecast API: %s'' err] \<rparr>)
      | Inr resp \<Rightarrow>
          (case Decode pf (Body resp) zero_DarkSkyForecast of
             Inl err \<Rightarrow>
               (Inl err,
                s\<lparr> logged := logged s @ [Errorf ''failed to decode DarkSky reponse: %s'' err] \<rparr>)
           | Inr f \<Rightarrow> (Inr f, s)))"

definition main_go_CallDarkSkyForecast ::
    "platform \<Rightarrow> go_error + http_Response \<Rightarrow> process \<Rightarrow> process + DarkSkyForecast" where
  "main_go_CallDarkSkyForecast pf get s =
     (case get of
        Inl err \<Rightarrow>
          Inl (s\<lparr> logged := logged s @ [Fatalf ''failed to call DarkSky forecast API: %s'' err],
                 status := Exited 1 \<rparr>)
      | Inr resp \<Rightarrow>
          (case Decode pf (Body resp) zero_DarkSkyForecast of
             Inl err \<Rightarrow>
               Inl (s\<lparr> logged := logged s @ [Fatalf ''failed to decode DarkSky reponse: %s'' err],
                      status := Exited 1 \<rparr>)
           | Inr f \<Rightarrow> Inr f))"

section \<open>Initialisation and the poll loop\<close>

text \<open>
  The calls into package \<open>owm\<close> are calls into the environment. Each gives the error it
  returns, if any, and the contents of the struct behind its receiver afterwards
  (\<open>CurrentByCoordinates\<close> and \<open>Current\<close> decode the response into the receiver).
\<close>

record owm_calls =
  NewCurrent :: "go_error + owm_CurrentWeatherData"
  CurrentByCoordinates :: "go_error option \<times> owm_CurrentWeatherData"
  NewUV :: "go_error + owm_UV"
  Current :: "go_error option \<times> owm_UV"

text \<open>
  \<open>InitOpenWeatherMap\<close> of the file that records metrics. The results of
  \<open>w.CurrentByCoordinates\<close> and \<open>uv.Current\<close> are expression statements: the returned
  errors are dropped.
\<close>

definition InitOpenWeatherMap ::
    "owm_calls \<Rightarrow> process \<Rightarrow> (go_error + owm_CurrentWeatherData \<times> owm_UV) \<times> process" where
  "InitOpenWeatherMap env s =
     (case NewCurrent env of
        Inl err \<Rightarrow>
          (Inl err,
           s\<lparr> logged := logged s @
                [Errorf ''failed to initialize OpenWeatherMap current weather data: %v'' err] \<rparr>)
      | Inr w0 \<Rightarrow>
          (let w = snd (CurrentByCoordinates env)
           in case NewUV env of
                Inl err \<Rightarrow>
                  (Inl err,
                   s\<lparr> logged := logged s @
                        [Errorf ''failed to initialize OpenWeatherMap UV data: %s'' err] \<rparr>)
              | Inr uv0 \<Rightarrow> (let uv = snd (Current env) in (Inr (w, uv), s))))"

text \<open>\<open>InitOpenWeatherMap\<close> of \<open>main.go\<close>: \<open>Inl\<close> is the process that \<open>log.Fatalf\<close> ended.\<close>

definition main_go_InitOpenWeatherMap ::
    "owm_calls \<Rightarrow> process \<Rightarrow> process + owm_CurrentWeatherData \<times> owm_UV" where
  "main_go_InitOpenWeatherMap env s =
     (case NewCurrent env of
        Inl err \<Rightarrow>
          Inl (s\<lparr> logged := logged s @
                   [Fatalf ''failed to initialize OpenWeatherMap current weather data: %s'' err],
                 status := Exited 1 \<rparr>)
      | Inr w0 \<Rightarrow>
          (let w = snd (CurrentByCoordinates env)
           in case NewUV env of
                Inl err \<Rightarrow>
                  Inl (s\<lparr> logged := logged s @
                           [Fatalf ''failed to initialize OpenWeatherMap UV data: %s'' err],
                         status := Exited 1 \<rparr>)
              | Inr uv0 \<Rightarrow> (let uv = snd (Current env) in Inr (w, uv))))"

text \<open>
  \<open>InitExporter\<close>: the argument is the error of \<open>stackdriver.NewExporter\<close>, if any. The
  entry that \<open>log.Fatal\<close> writes does not show the error.
\<close>

definition InitExporter :: "go_error option \<Rightarrow> process \<Rightarrow> process" where
  "InitExporter NewExporter s =
     (case NewExporter of
        Some err \<Rightarrow> s\<lparr> logged := logged s @ [Fatal ''failed to initialize ''], status := Exited 1 \<rparr>
      | None \<Rightarrow> s)"

text \<open>
  A tick is one firing of a ticker together with what the environment answers to the
  fetch of that tick: for \<open>owmTicker\<close> the result of \<open>owmw.CurrentByCoordinates\<close>, for
  \<open>dsTicker\<close> the result of \<open>http.Get\<close>.
\<close>

datatype tick = owmTicker "go_error option" owm_CurrentWeatherData | dsTicker "go_error + http_Response"

text \<open>
  One pass through the \<open>select\<close> of the file that records metrics. \<open>break\<close> leaves the
  \<open>select\<close>, not the \<open>for\<close>.
\<close>

fun main_select :: "platform \<Rightarrow> tick \<Rightarrow> process \<Rightarrow> process" where
  "main_select pf (owmTicker err d) s0 =
     (let s = s0\<lparr> owmw := d \<rparr>
      in case err of
           Some e \<Rightarrow>
             s\<lparr> logged := logged s @
                  [Errorf ''failed to call current data from OpenWeatherMap: %v'' e] \<rparr>
         | None \<Rightarrow>
             (case OWMToWeather (Some (owmw s)) (Some (owmuv s)) of
                Inl p \<Rightarrow> s\<lparr> status := Panicked p \<rparr>
              | Inr w \<Rightarrow>
                  (case RecordMeasurement ''openweathermap'' (Some w) s of
                     Inl p \<Rightarrow> s\<lparr> status := Panicked p \<rparr>
                   | Inr (None, s') \<Rightarrow> s'
                   | Inr (Some e, s') \<Rightarrow>
                       s'\<lparr> logged := logged s' @ [Errorf ''failed to record: %v'' e] \<rparr>)))"
| "main_select pf (dsTicker get) s =
     (case CallDarkSkyForecast pf get s of
        (Inl e, s1) \<Rightarrow> s1\<lparr> logged := logged s1 @ [Errorf ''failed to call DarkSky: %v'' e] \<rparr>
      | (Inr f, s1) \<Rightarrow>
          (case DSToWeather pf (Some f) of
             Inl p \<Rightarrow> s1\<lparr> status := Panicked p \<rparr>
           | Inr w \<Rightarrow>
               (case RecordMeasurement ''darksky'' (Some w) s1 of
                  Inl p \<Rightarrow> s1\<lparr> status := Panicked p \<rparr>
                | Inr (None, s') \<Rightarrow> s'
                | Inr (Some e, s') \<Rightarrow>
                    s'\<lparr> logged := logged s' @ [Errorf ''failed to record: %v'' e] \<rparr>)))"

text \<open>
  The \<open>for\<close> loop has no exit: it serves tick after tick for as long as the process
  runs. \<open>main_loop\<close> gives the process after the ticks of a finite prefix.
\<close>

fun main_loop :: "platform \<Rightarrow> tick list \<Rightarrow> process \<Rightarrow> process" where
  "main_loop pf [] s = s"
| "main_loop pf (t # ts) s = (if status s = Running then main_loop pf ts (main_select pf t s) else s)"

text \<open>The same for \<open>main.go\<close>, which prints the record instead of recording it.\<close>

fun main_go_select :: "platform \<Rightarrow> tick \<Rightarrow> process \<Rightarrow> process" where
  "main_go_select pf (owmTicker err d) s0 =
     (let s = s0\<lparr> owmw := d \<rparr>
      in case OWMToWeather (Some (owmw s)) (Some (owmuv s)) of
           Inl p \<Rightarrow> s\<lparr> status := Panicked p \<rparr>
         | Inr w \<Rightarrow>
             s\<lparr> printed := printed s @
                  [Printf ''OWM: Weather: %s, Temp: %f, Pressure: %f, Humidity: %d, UV: %f\<newline>''
                     (Weather w) (Temperature w) (Pressure w) (Humidity w) (UV w)] \<rparr>)"
| "main_go_select pf (dsTicker get) s =
     (case main_go_CallDarkSkyForecast pf get s of
        Inl s' \<Rightarrow> s'
      | Inr f \<Rightarrow>
          (case DSToWeather pf (Some f) of
             Inl p \<Rightarrow> s\<lparr> status := Panicked p \<rparr>
           | Inr w \<Rightarrow>
               s\<lparr> printed := printed s @
                    [Printf ''DS: Weather: %s, Temp: %f, Pressure: %f, Humidity: %d, UV: %f\<newline>''
                       (Weather w) (Temperature w) (Pressure w) (Humidity w) (UV w)] \<rparr>))"

fun main_go_loop :: "platform \<Rightarrow> tick list \<Rightarrow> process \<Rightarrow> process" where
  "main_go_loop pf [] s = s"
| "main_go_loop pf (t # ts) s =
     (if status s = Running then main_go_loop pf ts (main_go_select pf t s) else s)"

section \<open>The two end-to-end scenarios\<close>

text \<open>
  A decimal of the scenario stands for the float64 nearest to it, as a Go constant or a
  number parsed from a response does.
\<close>

definition scenario_owm :: owm_CurrentWeatherData where
  "scenario_owm =
     \<lparr> Main = \<lparr> Temp = float64_of_rat (152 / 10), owm_Main.Pressure = float64_of_rat 1013,
                 owm_Main.Humidity = 60 \<rparr>,
       owm_CurrentWeatherData.Weather = [\<lparr> owm_Weather.Main = ''Clouds'' \<rparr>],
       Wind = \<lparr> Speed = float64_of_rat (31 / 10), Deg = float64_of_rat 180 \<rparr>,
       Clouds = \<lparr> All' = 80 \<rparr>,
       Rain = \<lparr> ThreeH = float64_of_rat (15 / 10) \<rparr> \<rparr>"

definition scenario_uv :: owm_UV where
  "scenario_uv = \<lparr> Value = float64_of_rat (42 / 10) \<rparr>"

definition scenario_ds :: DarkSkyForecast where
  "scenario_ds =
     zero_DarkSkyForecast
       \<lparr> Currently :=
           zero_Currently
             \<lparr> Currently.Temperature := float64_of_rat 10,
               Currently.Pressure := float64_of_rat 1000,
               Currently.Humidity := float64_of_rat (55 / 100),
               Summary := ''Rain'',
               Currently.WindSpeed := float64_of_rat 2,
               WindBearing := 90,
               PrecipIntensity := float64_of_rat (3 / 10),
               CloudCover := float64_of_rat (9 / 10) \<rparr> \<rparr>"

section \<open>Sample inputs\<close>

definition percentage :: "int \<Rightarrow> bool" where
  "percentage i = (0 \<le> i \<and> i \<le> 100)"

text \<open>The record of the first scenario.\<close>

definition scenario_weather :: Weather where
  "scenario_weather =
     \<lparr> Temperature = float64_of_rat (152 / 10), Pressure = float64_of_rat 1013, Humidity = 60,
       Weather = ''Clouds'', WindSpeed = float64_of_rat (31 / 10), WindDeg = float64_of_rat 180,
       Cloudiness = 80, Rainfall = float64_of_rat (5 / 10), Snowfall = Finite False 0,
       UV = float64_of_rat (42 / 10) \<rparr>"

text \<open>The record of the second scenario, and a response body that decodes to its input.\<close>

definition scenario_ds_weather :: Weather where
  "scenario_ds_weather =
     \<lparr> Temperature = float64_of_rat 10, Pressure = float64_of_rat 1000, Humidity = 55,
       Weather = ''Rain'', WindSpeed = float64_of_rat 2, WindDeg = float64_of_rat 90,
       Cloudiness = 90, Rainfall = float64_of_rat (3 / 10), Snowfall = Finite False 0,
       UV = Finite False 0 \<rparr>"

definition scenario_body :: json where
  "scenario_body =
     JObject
       [(''currently'',
         JObject
           [(''temperature'', JNumber False 10 False),
            (''pressure'', JNumber False 1000 True),
            (''humidity'', JNumber False (55 / 100) False),
            (''summary'', JString ''Rain''),
            (''windSpeed'', JNumber False 2 False),
            (''windBearing'', JNumber False 90 True),
            (''precipIntensity'', JNumber False (3 / 10) False),
            (''cloudCover'', JNumber False (9 / 10) False)])]"

text \<open>Provider-A responses with a humidity of 150 and with no weather element.\<close>

definition humid_owm :: owm_CurrentWeatherData where
  "humid_owm = scenario_owm \<lparr> Main := (Main scenario_owm) \<lparr> owm_Main.Humidity := 150 \<rparr> \<rparr>"

definition no_weather_owm :: owm_CurrentWeatherData where
  "no_weather_owm = scenario_owm \<lparr> owm_CurrentWeatherData.Weather := [] \<rparr>"

text \<open>The provider-B scenario with a UV index of 7.\<close>

definition uv_ds :: DarkSkyForecast where
  "uv_ds = scenario_ds \<lparr> Currently := (Currently scenario_ds) \<lparr> UVIndex := float64_of_rat 7 \<rparr> \<rparr>"

text \<open>The provider-B scenario with a humidity of 0.35.\<close>

definition humid35_ds :: DarkSkyForecast where
  "humid35_ds =
     scenario_ds \<lparr> Currently := (Currently scenario_ds) \<lparr> Currently.Humidity := float64_of_rat (35 / 100) \<rparr> \<rparr>"

text \<open>A process that has just entered the poll loop.\<close>

definition idle :: process where
  "idle = \<lparr> status = Running, owmw = scenario_owm, owmuv = scenario_uv, logged = [],
             recorded = [], printed = [] \<rparr>"

text \<open>A source identifier with a tab character in it.\<close>

definition tab_id :: string where
  "tab_id = ''dark'' @ [CHR 0x09] @ ''sky''"

text \<open>A failed fetch, and an initialisation in which both first fetches fail.\<close>

definition fetch_error :: go_error where
  "fetch_error = Err ''net/http: request canceled (Client.Timeout exceeded)''"

definition failing_init :: owm_calls where
  "failing_init =
     \<lparr> NewCurrent = Inr scenario_owm, CurrentByCoordinates = (Some fetch_error, scenario_owm),
       NewUV = Inr scenario_uv, Current = (Some fetch_error, scenario_uv) \<rparr>"

text \<open>
  Two response bodies: \<^verbatim>\<open>{"latitude":35.662,"longitude":139.7038,"timezone":"Asia/Tokyo"}\<close>,
  which has no \<open>currently\<close> member, and one whose \<open>currently\<close> member is a string.
\<close>

definition without_currently :: json where
  "without_currently =
     JObject [(''latitude'', JNumber False (35662 / 1000) False),
              (''longitude'', JNumber False (1397038 / 10000) False),
              (''timezone'', JString ''Asia/Tokyo'')]"

definition currently_mistyped :: json where
  "currently_mistyped =
     JObject [(''latitude'', JNumber False (35662 / 1000) False),
              (''currently'', JString ''unavailable'')]"

section \<open>Properties of the rounding\<close>

lemma pow2_pos: "0 < pow2 e"
  by (simp add: pow2_def)

lemma pow2_add1: "pow2 (e + 1) = 2 * pow2 e"
proof (cases "0 \<le> e")
  case True
  then show ?thesis by (simp add: pow2_def nat_add_distrib)
next
  case False
  then have "nat (- e) = Suc (nat (- (e + 1)))" by simp
  then show ?thesis using False by (auto simp add: pow2_def)
qed

lemma pow2_mono: "a \<le> b \<Longrightarrow> pow2 a \<le> pow2 b"
proof -
  assume "a \<le> b"
  then obtain n where b: "b = a + int n" by (metis zle_iff_zadd)
  have "pow2 a \<le> pow2 (a + int n)"
  proof (induction n)
    case 0
    then show ?case by simp
  next
    case (Suc n)
    have "a + int (Suc n) = (a + int n) + 1" by simp
    then have "pow2 (a + int (Suc n)) = 2 * pow2 (a + int n)"
      by (simp only: pow2_add1)
    with Suc pow2_pos[of "a + int n"] show ?case by linarith
  qed
  with b show ?thesis by simp
qed

lemma pow2_less_imp: "pow2 a < pow2 b \<Longrightarrow> a < b"
  using pow2_mono[of b a] by (cases "a < b") auto

lemma ilog2_bounds:
  assumes "0 < x"
  shows "pow2 (ilog2 x) \<le> x" and "x < pow2 (ilog2 x + 1)"
proof -
  have "pow2 (ilog2 x) \<le> x \<and> x < pow2 (ilog2 x + 1)"
  proof (cases "1 \<le> x")
    case True
    define n where "n = \<lfloor>x\<rfloor>"
    have n1: "1 \<le> n" using True by (simp add: n_def le_floor_iff)
    then have npos: "0 < n" by simp
    have b1: "1 \<le> bitlen n" using npos bitlen_nonneg[of n] bitlen_eq_zero_iff[of n] by linarith
    have bb: "2 ^ nat (bitlen n - 1) \<le> n" "n < 2 ^ nat (bitlen n)"
      using bitlen_bounds[OF npos] by auto
    have "rat_of_int (2 ^ nat (bitlen n - 1)) \<le> rat_of_int n" using bb(1) by (simp only: of_int_le_iff)
    also have "\<dots> \<le> x" by (simp add: n_def)
    finally have lo: "pow2 (bitlen n - 1) \<le> x" using b1 by (simp add: pow2_def)
    have "x < rat_of_int (n + 1)" unfolding n_def using floor_correct[of x] by simp
    also have "\<dots> \<le> rat_of_int (2 ^ nat (bitlen n))" using bb(2) by (simp only: of_int_le_iff)
    finally have hi: "x < pow2 (bitlen n)" using b1 by (simp add: pow2_def)
    show ?thesis using True lo hi by (simp add: ilog2_def n_def)
  next
    case False
    define y where "y = 1 / x"
    have y1: "1 < y" using False assms by (simp add: y_def)
    define n where "n = \<lceil>y\<rceil>"
    have n2: "2 \<le> n" using y1 unfolding n_def by (simp add: le_ceiling_iff)
    define b where "b = bitlen (n - 1)"
    have npos: "0 < n - 1" using n2 by simp
    have b1: "1 \<le> b" using npos bitlen_nonneg[of "n - 1"] bitlen_eq_zero_iff[of "n - 1"] unfolding b_def by linarith
    have bb: "2 ^ nat (b - 1) \<le> n - 1" "n - 1 < 2 ^ nat b"
      using bitlen_bounds[OF npos] by (auto simp: b_def)
    have "y \<le> rat_of_int n" by (simp add: n_def)
    also have "\<dots> \<le> rat_of_int (2 ^ nat b)" using bb(2) by (simp only: of_int_le_iff)
    finally have yle: "y \<le> 2 ^ nat b" by simp
    have "rat_of_int (2 ^ nat (b - 1)) \<le> rat_of_int (n - 1)" using bb(1) by (simp only: of_int_le_iff)
    also have "\<dots> < y" unfolding n_def using ceiling_correct[of y] by simp
    finally have ygt: "2 ^ nat (b - 1) < y" by simp
    have lo: "pow2 (- b) \<le> x"
    proof -
      have "1 / 2 ^ nat b \<le> 1 / y" using yle y1 by (simp add: frac_le)
      then show ?thesis using b1 assms by (simp add: pow2_def y_def)
    qed
    have hi: "x < pow2 (- b + 1)"
    proof -
      have "1 / y < 1 / 2 ^ nat (b - 1)" using ygt by (simp add: frac_less2)
      moreover have "pow2 (- b + 1) = 1 / 2 ^ nat (b - 1)"
        using b1 by (cases "b = 1") (auto simp add: pow2_def)
      ultimately show ?thesis using assms by (simp add: y_def)
    qed
    show ?thesis using False lo hi by (simp add: ilog2_def n_def y_def b_def)
  qed
  then show "pow2 (ilog2 x) \<le> x" and "x < pow2 (ilog2 x + 1)" by auto
qed

lemma ilog2_unique:
  assumes "pow2 k \<le> x" and "x < pow2 (k + 1)"
  shows "ilog2 x = k"
proof -
  have x: "0 < x" using assms(1) pow2_pos[of k] by linarith
  have "pow2 k < pow2 (ilog2 x + 1)" using assms(1) ilog2_bounds(2)[OF x] by linarith
  then have a: "k < ilog2 x + 1" by (rule pow2_less_imp)
  have "pow2 (ilog2 x) < pow2 (k + 1)" using assms(2) ilog2_bounds(1)[OF x] by linarith
  then have "ilog2 x < k + 1" by (rule pow2_less_imp)
  with a show ?thesis by linarith
qed

lemma round_half_even_unique:
  assumes "\<bar>y - of_int m\<bar> < 1 / 2"
  shows "round_half_even y = m"
proof -
  have "\<lfloor>y\<rfloor> = m \<or> \<lfloor>y\<rfloor> = m - 1"
  proof -
    have "of_int m - 1 < y" "y < of_int m + 1" using assms by linarith+
    then have "m - 1 \<le> \<lfloor>y\<rfloor>" "\<lfloor>y\<rfloor> < m + 1"
      by (simp_all add: le_floor_iff floor_le_iff)
    then show ?thesis by linarith
  qed
  then show ?thesis
  proof
    assume f: "\<lfloor>y\<rfloor> = m"
    then have "y - of_int \<lfloor>y\<rfloor> < 1 / 2" using assms by linarith
    then show ?thesis using f by (simp add: round_half_even_def Let_def)
  next
    assume f: "\<lfloor>y\<rfloor> = m - 1"
    then have "rat_of_int \<lfloor>y\<rfloor> = of_int m - 1" by simp
    then have "1 / 2 < y - of_int \<lfloor>y\<rfloor>" using assms by linarith
    then show ?thesis using f by (simp add: round_half_even_def Let_def)
  qed
qed

lemma round64_eqI:
  assumes "pow2 k \<le> x" and "x < pow2 (k + 1)"
    and "\<bar>x / pow2 (max (k - 52) (- 1074)) - of_int m\<bar> < 1 / 2"
  shows "round64 x = of_int m * pow2 (max (k - 52) (- 1074))"
proof -
  have x: "0 < x" using assms(1) pow2_pos[of k] by linarith
  have "ilog2 x = k" using assms(1,2) by (rule ilog2_unique)
  then show ?thesis using x round_half_even_unique[OF assms(3)]
    by (simp add: round64_def Let_def)
qed

lemma round_half_even_nonneg: "0 \<le> y \<Longrightarrow> 0 \<le> round_half_even y"
proof -
  assume "0 \<le> y"
  then have "0 \<le> \<lfloor>y\<rfloor>" by simp
  then show ?thesis by (simp add: round_half_even_def Let_def)
qed

lemma round_half_even_le:
  assumes "y \<le> of_int N"
  shows "round_half_even y \<le> N"
proof (cases "\<lfloor>y\<rfloor> < N")
  case True
  then show ?thesis by (simp add: round_half_even_def Let_def)
next
  case False
  have "\<lfloor>y\<rfloor> \<le> N" using assms by (simp add: floor_le_iff)
  with False have f: "\<lfloor>y\<rfloor> = N" by simp
  have "of_int \<lfloor>y\<rfloor> \<le> y" by simp
  with f assms have "y = of_int N" by simp
  then show ?thesis by (simp add: round_half_even_def Let_def)
qed

lemma pow2_neg: "e \<le> 0 \<Longrightarrow> pow2 e * 2 ^ nat (- e) = 1"
  by (cases "e = 0") (auto simp add: pow2_def)

lemma round64_le_int:
  assumes "0 \<le> x" and "x \<le> of_int c" and "x < 2 ^ 53"
  shows "0 \<le> round64 x \<and> round64 x \<le> of_int c"
proof (cases "x = 0")
  case True
  then show ?thesis using assms by (simp add: round64_def)
next
  case False
  with assms have x: "0 < x" by simp
  define e where "e = max (ilog2 x - 52) (- 1074)"
  have "pow2 (ilog2 x) \<le> x" using ilog2_bounds(1)[OF x] .
  also have "x < pow2 53" using assms(3) by (simp add: pow2_def)
  finally have "ilog2 x < 53" by (rule pow2_less_imp)
  then have e: "e \<le> 0" by (simp add: e_def)
  define N :: int where "N = c * 2 ^ nat (- e)"
  have p: "0 < pow2 e" by (rule pow2_pos)
  have "x / pow2 e \<le> of_int c / pow2 e" using assms(2) p by (simp add: divide_right_mono)
  also have "of_int c / pow2 e = of_int N"
    using pow2_neg[OF e] p unfolding N_def by (simp add: field_simps)
  finally have "round_half_even (x / pow2 e) \<le> N" by (rule round_half_even_le)
  then have "rat_of_int (round_half_even (x / pow2 e)) \<le> of_int N" by (simp only: of_int_le_iff)
  then have "of_int (round_half_even (x / pow2 e)) * pow2 e \<le> of_int N * pow2 e"
    using p by (simp add: mult_right_mono)
  also have "of_int N * pow2 e = of_int c"
    using pow2_neg[OF e] unfolding N_def by (simp add: field_simps)
  finally have hi: "round64 x \<le> of_int c" using x by (simp add: round64_def Let_def e_def)
  have "0 \<le> x / pow2 e" using assms(1) p by simp
  then have "0 \<le> round_half_even (x / pow2 e)" by (rule round_half_even_nonneg)
  then have "0 \<le> rat_of_int (round_half_even (x / pow2 e)) * pow2 e" using p by simp
  then have lo: "0 \<le> round64 x" using x by (simp add: round64_def Let_def e_def)
  from lo hi show ?thesis ..
qed

lemma to_float64_small:
  assumes "0 \<le> x" and "x \<le> 2 ^ 52"
  shows "to_float64 s x = Finite s (round64 x)"
proof -
  have "x \<le> rat_of_int (2 ^ 52)" using assms(2) by simp
  moreover have "x < 2 ^ 53" using assms(2) by simp
  ultimately have "round64 x \<le> rat_of_int (2 ^ 52)"
    using round64_le_int[OF assms(1), of "2 ^ 52"] by blast
  then have "round64 x < 2 ^ 1024" by simp
  then show ?thesis by (simp add: to_float64_def Let_def)
qed

lemma round64_percent:
  assumes "0 \<le> x" and "x \<le> 100"
  shows "0 \<le> round64 x \<and> round64 x \<le> 100"
  using round64_le_int[OF assms(1), of 100] assms(2) by simp

lemma round64_100: "round64 100 = 100"
  using round64_eqI[of 6 100 "25 * 2 ^ 48"] by (simp add: pow2_def)

lemma float64_of_rat_100: "float64_of_rat 100 = Finite False 100"
  by (simp add: float64_of_rat_def to_float64_def round64_100)

lemma in_range_percent: "0 \<le> t \<Longrightarrow> t \<le> 100 \<Longrightarrow> in_range (int_bits sz) t"
  by (cases sz) (simp_all add: in_range_def)

lemma percent_of_unit:
  assumes "in_unit_interval h"
  shows "int_of_float64 pf (float64_mul h (float64_of_rat 100))
           = \<lfloor>valof (float64_mul h (Finite False 100))\<rfloor>"
    and "0 \<le> int_of_float64 pf (float64_mul h (float64_of_rat 100))"
    and "int_of_float64 pf (float64_mul h (float64_of_rat 100)) \<le> 100"
proof -
  from assms obtain s x where h: "h = Finite s x" and x0: "0 \<le> x"
    and v: "0 \<le> valof h" "valof h \<le> 1"
    by (cases h) (auto simp add: in_unit_interval_def)
  have x1: "x \<le> 1" using h x0 v by (cases s) auto
  have sx: "s \<Longrightarrow> x = 0" using h x0 v by auto
  define r where "r = round64 (x * 100)"
  have r: "0 \<le> r" "r \<le> 100"
    using round64_percent[of "x * 100"] x0 x1 by (simp_all add: r_def)
  have m: "float64_mul h (Finite False 100) = Finite s r"
    using r by (simp add: h to_float64_def r_def Let_def)
  have f: "0 \<le> \<lfloor>r\<rfloor>" "\<lfloor>r\<rfloor> \<le> 100"
    using r by (simp_all add: floor_le_iff le_floor_iff)
  have sr: "s \<Longrightarrow> r = 0" using sx by (simp add: r_def round64_def)
  have t: "int_of_float64 pf (Finite s r) = \<lfloor>valof (Finite s r)\<rfloor>"
  proof (cases s)
    case True
    then show ?thesis using sr by (simp add: in_range_percent)
  next
    case False
    then show ?thesis using f by (simp add: in_range_percent)
  qed
  show "int_of_float64 pf (float64_mul h (float64_of_rat 100))
           = \<lfloor>valof (float64_mul h (Finite False 100))\<rfloor>"
    using t by (simp only: float64_of_rat_100 m)
  have b: "0 \<le> \<lfloor>valof (Finite s r)\<rfloor> \<and> \<lfloor>valof (Finite s r)\<rfloor> \<le> 100"
    using f sr by (cases s) simp_all
  show "0 \<le> int_of_float64 pf (float64_mul h (float64_of_rat 100))"
    using t b by (simp only: float64_of_rat_100 m)
  show "int_of_float64 pf (float64_mul h (float64_of_rat 100)) \<le> 100"
    using t b by (simp only: float64_of_rat_100 m)
qed

text \<open>
  The float64 product is the exact product rounded to nearest, so the percentage that the
  code computes is the floor of the exact product or that floor plus one.
\<close>

lemma round_half_even_ge:
  assumes "of_int N \<le> y"
  shows "N \<le> round_half_even y"
proof -
  have "N \<le> \<lfloor>y\<rfloor>" using assms by (simp add: le_floor_iff)
  then show ?thesis by (simp add: round_half_even_def Let_def)
qed

lemma round64_ge_int:
  assumes "0 < x" and "of_int c \<le> x" and "x < 2 ^ 53"
  shows "of_int c \<le> round64 x"
proof -
  define e where "e = max (ilog2 x - 52) (- 1074)"
  have "pow2 (ilog2 x) \<le> x" using ilog2_bounds(1)[OF assms(1)] .
  also have "x < pow2 53" using assms(3) by (simp add: pow2_def)
  finally have "ilog2 x < 53" by (rule pow2_less_imp)
  then have e: "e \<le> 0" by (simp add: e_def)
  define N :: int where "N = c * 2 ^ nat (- e)"
  have p: "0 < pow2 e" by (rule pow2_pos)
  have "of_int N = of_int c / pow2 e"
    using pow2_neg[OF e] p unfolding N_def by (simp add: field_simps)
  also have "\<dots> \<le> x / pow2 e" using assms(2) p by (simp add: divide_right_mono)
  finally have "N \<le> round_half_even (x / pow2 e)" by (rule round_half_even_ge)
  then have "rat_of_int N \<le> of_int (round_half_even (x / pow2 e))" by (simp only: of_int_le_iff)
  then have "of_int N * pow2 e \<le> of_int (round_half_even (x / pow2 e)) * pow2 e"
    using p by (simp add: mult_right_mono)
  moreover have "of_int N * pow2 e = of_int c"
    using pow2_neg[OF e] unfolding N_def by (simp add: field_simps)
  ultimately show ?thesis using assms(1) by (simp add: round64_def Let_def e_def)
qed

lemma percent_near_exact:
  assumes "in_unit_interval h"
  shows "\<lfloor>valof h * 100\<rfloor> \<le> int_of_float64 pf (float64_mul h (float64_of_rat 100))"
    and "int_of_float64 pf (float64_mul h (float64_of_rat 100)) \<le> \<lfloor>valof h * 100\<rfloor> + 1"
proof -
  from assms obtain s x where h: "h = Finite s x" and x0: "0 \<le> x"
    and v: "0 \<le> valof h" "valof h \<le> 1"
    by (cases h) (auto simp add: in_unit_interval_def)
  have x1: "x \<le> 1" using h x0 v by (cases s) auto
  have sx: "s \<Longrightarrow> x = 0" using h x0 v by auto
  have vx: "valof h = x" using h sx by (cases s) simp_all
  define c where "c = \<lfloor>x * 100\<rfloor>"
  define r where "r = round64 (x * 100)"
  have m: "float64_mul h (Finite False 100) = Finite s r"
    using round64_percent[of "x * 100"] x0 x1 by (simp add: h to_float64_def r_def Let_def)
  have i: "int_of_float64 pf (float64_mul h (float64_of_rat 100)) = \<lfloor>valof (Finite s r)\<rfloor>"
    using percent_of_unit(1)[OF assms, of pf] by (simp only: m)
  have sr: "s \<Longrightarrow> r = 0" using sx by (simp add: r_def round64_def)
  have vr: "valof (Finite s r) = r" using sr by (cases s) simp_all
  have i': "int_of_float64 pf (float64_mul h (float64_of_rat 100)) = \<lfloor>r\<rfloor>"
    by (simp only: i vr)
  have lo: "of_int c \<le> r"
  proof (cases "x = 0")
    case True
    then show ?thesis by (simp add: c_def r_def round64_def)
  next
    case False
    then have "0 < x * 100" using x0 by simp
    moreover have "of_int c \<le> x * 100" by (simp add: c_def)
    moreover have "x * 100 < 2 ^ 53" using x1 by simp
    ultimately show ?thesis unfolding r_def by (rule round64_ge_int)
  qed
  have "x * 100 \<le> of_int (c + 1)" unfolding c_def using floor_correct[of "x * 100"] by simp
  moreover have "x * 100 < 2 ^ 53" using x1 by simp
  moreover have "0 \<le> x * 100" using x0 by simp
  ultimately have hi: "r \<le> of_int (c + 1)" unfolding r_def using round64_le_int by blast
  from lo have "c \<le> \<lfloor>r\<rfloor>" by (simp add: le_floor_iff)
  then show "\<lfloor>valof h * 100\<rfloor> \<le> int_of_float64 pf (float64_mul h (float64_of_rat 100))"
    by (simp only: i' vx c_def)
  from hi have "\<lfloor>r\<rfloor> \<le> c + 1" by (simp add: floor_le_iff)
  then show "int_of_float64 pf (float64_mul h (float64_of_rat 100)) \<le> \<lfloor>valof h * 100\<rfloor> + 1"
    by (simp only: i' vx c_def)
qed

section \<open>The scenario numbers\<close>

lemma round64_3: "round64 3 = 3"
  using round64_eqI[of 1 3 "3 * 2 ^ 51"] by (simp add: pow2_def)

lemma float64_of_rat_3: "float64_of_rat 3 = Finite False 3"
  by (simp add: float64_of_rat_def to_float64_def round64_3)

lemma round64_3_2: "round64 (3 / 2) = 3 / 2"
  using round64_eqI[of 0 "3 / 2" "3 * 2 ^ 51"] by (simp add: pow2_def)

lemma round64_1_2: "round64 (1 / 2) = 1 / 2"
  using round64_eqI[of "- 1" "1 / 2" "2 ^ 52"] by (simp add: pow2_def)

lemma round64_11_20: "round64 (11 / 20) = 4953959590107546 / 2 ^ 53"
  using round64_eqI[of "- 1" "11 / 20" 4953959590107546] by (simp add: pow2_def)

lemma round64_9_10: "round64 (9 / 10) = 8106479329266893 / 2 ^ 53"
  using round64_eqI[of "- 1" "9 / 10" 8106479329266893] by (simp add: pow2_def)

lemma round64_7_20: "round64 (7 / 20) = 6305039478318694 / 2 ^ 54"
  using round64_eqI[of "- 2" "7 / 20" 6305039478318694] by (simp add: pow2_def)

lemma round64_55: "round64 (4953959590107546 / 2 ^ 53 * 100) = 7740561859543041 / 2 ^ 47"
  using round64_eqI[of 5 "4953959590107546 / 2 ^ 53 * 100" 7740561859543041] by (simp add: pow2_def)

lemma round64_90: "round64 (8106479329266893 / 2 ^ 53 * 100) = 90"
  using round64_eqI[of 6 "8106479329266893 / 2 ^ 53 * 100" 6333186975989760] by (simp add: pow2_def)

lemma round64_35: "round64 (6305039478318694 / 2 ^ 54 * 100) = 35"
  using round64_eqI[of 5 "6305039478318694 / 2 ^ 54 * 100" 4925812092436480] by (simp add: pow2_def)

lemma floor_55: "\<lfloor>7740561859543041 / 2 ^ 47 :: rat\<rfloor> = 55"
  by (rule floor_unique) simp_all

lemma floor_34: "\<lfloor>6305039478318694 / 2 ^ 54 * 100 :: rat\<rfloor> = 34"
  by (rule floor_unique) simp_all

text \<open>
  At the float64 nearest to 0.35, which is a little less than 0.35, the product with 100
  rounds to 35, though the exact product is less than 35.
\<close>

lemma float64_mul_35:
  "float64_mul (float64_of_rat (35 / 100)) (float64_of_rat 100) = Finite False 35
   \<and> \<lfloor>valof (float64_of_rat (35 / 100)) * 100\<rfloor> = 34"
  using round64_35 floor_34
  by (simp add: float64_of_rat_def to_float64_def round64_7_20 round64_100)

lemma mul_55: "float64_mul (float64_of_rat (55 / 100)) (float64_of_rat 100) = Finite False (7740561859543041 / 2 ^ 47)"
  using round64_55 by (simp add: float64_of_rat_def to_float64_def round64_11_20 round64_100)

lemma mul_90: "float64_mul (float64_of_rat (9 / 10)) (float64_of_rat 100) = Finite False 90"
  using round64_90 by (simp add: float64_of_rat_def to_float64_def round64_9_10 round64_100)

lemma mul_11_20: "float64_mul (float64_of_rat (11 / 20)) (float64_of_rat 100) = Finite False (7740561859543041 / 2 ^ 47)"
  using mul_55 by simp

lemma int_55: "int_of_float64 pf (Finite False (7740561859543041 / 2 ^ 47)) = 55"
  using floor_55 by (simp add: in_range_percent)

lemma int_90: "int_of_float64 pf (Finite False 90) = 90"
  by (simp add: in_range_percent)

lemma percent_55:
  "int_of_float64 pf (float64_mul (float64_of_rat (11 / 20)) (float64_of_rat 100)) = 55"
  by (simp only: mul_11_20 int_55)

lemma percent_90:
  "int_of_float64 pf (float64_mul (float64_of_rat (9 / 10)) (float64_of_rat 100)) = 90"
  by (simp only: mul_90 int_90)

lemma float64_of_int_90: "float64_of_int 90 = float64_of_rat 90"
  by (simp add: float64_of_int_def float64_of_rat_def)

lemma percent_35:
  "int_of_float64 pf (float64_mul (float64_of_rat (35 / 100)) (float64_of_rat 100)) = 35"
proof -
  have "float64_mul (float64_of_rat (35 / 100)) (float64_of_rat 100) = Finite False 35"
    using float64_mul_35 by blast
  then show ?thesis by (simp add: in_range_percent)
qed

lemma unit_35: "in_unit_interval (float64_of_rat (35 / 100))"
  by (simp add: in_unit_interval_def float64_of_rat_def to_float64_def round64_7_20)

lemma unit_55: "in_unit_interval (float64_of_rat (55 / 100))"
  by (simp add: in_unit_interval_def float64_of_rat_def to_float64_def round64_11_20)

lemma unit_90: "in_unit_interval (float64_of_rat (9 / 10))"
  by (simp add: in_unit_interval_def float64_of_rat_def to_float64_def round64_9_10)

lemma round64_7: "round64 7 = 7"
  using round64_eqI[of 2 7 "7 * 2 ^ 50"] by (simp add: pow2_def)

lemma round64_latitude: "round64 (17831 / 500) = 5018980309727707 / 2 ^ 47"
  using round64_eqI[of 5 "17831 / 500" 5018980309727707] by (simp add: pow2_def)

lemma round64_longitude: "round64 (698519 / 5000) = 4915390481423768 / 2 ^ 45"
  using round64_eqI[of 7 "698519 / 5000" 4915390481423768] by (simp add: pow2_def)

section \<open>The adapters map as specified\<close>

lemma OWMToWeather_Some:
  "OWMToWeather (Some d) (Some u) =
     (case owm_CurrentWeatherData.Weather d of
        [] \<Rightarrow> Inl index_out_of_range
      | w0 # ws \<Rightarrow>
          Inr \<lparr> Temperature = Temp (Main d), Pressure = owm_Main.Pressure (Main d),
                Humidity = owm_Main.Humidity (Main d), Weather = owm_Weather.Main w0,
                WindSpeed = Speed (Wind d), WindDeg = Deg (Wind d), Cloudiness = All' (Clouds d),
                Rainfall = float64_div (ThreeH (Rain d)) (float64_of_rat 3),
                Snowfall = Finite False 0, UV = Value u \<rparr>)"
  by (simp add: OWMToWeather_def split: list.split)

lemma DSToWeather_Some:
  "DSToWeather pf (Some f) =
     Inr \<lparr> Temperature = Currently.Temperature (Currently f),
           Pressure = Currently.Pressure (Currently f),
           Humidity =
             int_of_float64 pf (float64_mul (Currently.Humidity (Currently f)) (float64_of_rat 100)),
           Weather = Summary (Currently f),
           WindSpeed = Currently.WindSpeed (Currently f),
           WindDeg = float64_of_int (WindBearing (Currently f)),
           Cloudiness =
             int_of_float64 pf (float64_mul (CloudCover (Currently f)) (float64_of_rat 100)),
           Rainfall = PrecipIntensity (Currently f),
           Snowfall = Finite False 0,
           UV = Finite False 0 \<rparr>"
  by (simp add: DSToWeather_def)

text \<open>
  C1. For a provider-A response with a non-empty weather array, \<open>OWMToWeather\<close> returns a
  record whose humidity is the raw integer humidity and whose rainfall is the raw 3-hour
  rainfall divided by 3 (the float64 quotient). On the scenario input with UV 4.2 the
  record is the one of the specification, with rainfall 0.5.
\<close>

theorem OWMToWeather_humidity_rainfall:
  "(owm_CurrentWeatherData.Weather d \<noteq> [] \<longrightarrow>
      (\<exists>r. OWMToWeather (Some d) (Some u) = Inr r
           \<and> Humidity r = owm_Main.Humidity (Main d)
           \<and> Rainfall r = float64_div (ThreeH (Rain d)) (Finite False 3)))
   \<and> OWMToWeather (Some scenario_owm) (Some scenario_uv) =
       Inr \<lparr> Temperature = float64_of_rat (152 / 10), Pressure = float64_of_rat 1013,
             Humidity = 60, Weather = ''Clouds'', WindSpeed = float64_of_rat (31 / 10),
             WindDeg = float64_of_rat 180, Cloudiness = 80, Rainfall = Finite False (1 / 2),
             Snowfall = Finite False 0, UV = float64_of_rat (42 / 10) \<rparr>"
proof
  show "owm_CurrentWeatherData.Weather d \<noteq> [] \<longrightarrow>
      (\<exists>r. OWMToWeather (Some d) (Some u) = Inr r
           \<and> Humidity r = owm_Main.Humidity (Main d)
           \<and> Rainfall r = float64_div (ThreeH (Rain d)) (Finite False 3))"
    by (cases "owm_CurrentWeatherData.Weather d") (simp_all add: OWMToWeather_Some float64_of_rat_3)
next
  have "float64_div (float64_of_rat (15 / 10)) (float64_of_rat 3) = Finite False (1 / 2)"
    by (simp add: float64_of_rat_def to_float64_def round64_3 round64_3_2 round64_1_2)
  then show "OWMToWeather (Some scenario_owm) (Some scenario_uv) =
       Inr \<lparr> Temperature = float64_of_rat (152 / 10), Pressure = float64_of_rat 1013,
             Humidity = 60, Weather = ''Clouds'', WindSpeed = float64_of_rat (31 / 10),
             WindDeg = float64_of_rat 180, Cloudiness = 80, Rainfall = Finite False (1 / 2),
             Snowfall = Finite False 0, UV = float64_of_rat (42 / 10) \<rparr>"
    by (simp add: OWMToWeather_Some scenario_owm_def scenario_uv_def)
qed

theorem OWMToWeather_humidity_rainfall_witness:
  "owm_CurrentWeatherData.Weather scenario_owm \<noteq> []
   \<and> (\<exists>r. OWMToWeather (Some scenario_owm) (Some scenario_uv) = Inr r
         \<and> Humidity r = 60 \<and> Rainfall r = Finite False (1 / 2))"
  using OWMToWeather_humidity_rainfall[of scenario_owm scenario_uv]
  by (simp add: scenario_owm_def)

text \<open>
  C2, as stated, fails when the product is read as the exact one: at the float64 nearest
  to 0.35, a fraction in the unit interval, \<open>DSToWeather\<close> gives a humidity of 35, and
  the floor of the fraction times 100 is 34.
\<close>

theorem DSToWeather_percent_not_exact:
  "in_unit_interval (Currently.Humidity (Currently humid35_ds))
   \<and> DSToWeather amd64 (Some humid35_ds) =
       Inr \<lparr> Temperature = float64_of_rat 10, Pressure = float64_of_rat 1000, Humidity = 35,
             Weather = ''Rain'', WindSpeed = float64_of_rat 2, WindDeg = float64_of_rat 90,
             Cloudiness = 90, Rainfall = float64_of_rat (3 / 10), Snowfall = Finite False 0,
             UV = Finite False 0 \<rparr>
   \<and> \<lfloor>valof (Currently.Humidity (Currently humid35_ds)) * 100\<rfloor> = 34"
proof -
  have h: "Currently.Humidity (Currently humid35_ds) = float64_of_rat (35 / 100)"
    by (simp add: humid35_ds_def)
  have c: "Currently humid35_ds =
      zero_Currently
             \<lparr> Currently.Temperature := float64_of_rat 10,
               Currently.Pressure := float64_of_rat 1000,
               Currently.Humidity := float64_of_rat (35 / 100),
               Summary := ''Rain'',
               Currently.WindSpeed := float64_of_rat 2,
               WindBearing := 90,
               PrecipIntensity := float64_of_rat (3 / 10),
               CloudCover := float64_of_rat (9 / 10) \<rparr>"
    by (simp add: humid35_ds_def scenario_ds_def)
  have p: "int_of_float64 amd64 (float64_mul (float64_of_rat (7 / 20)) (float64_of_rat 100)) = 35"
    using percent_35[of amd64] by simp
  have d: "DSToWeather amd64 (Some humid35_ds) =
       Inr \<lparr> Temperature = float64_of_rat 10, Pressure = float64_of_rat 1000, Humidity = 35,
             Weather = ''Rain'', WindSpeed = float64_of_rat 2, WindDeg = float64_of_rat 90,
             Cloudiness = 90, Rainfall = float64_of_rat (3 / 10), Snowfall = Finite False 0,
             UV = Finite False 0 \<rparr>"
    unfolding DSToWeather_Some c
    by (simp add: p percent_90 float64_of_int_90)
  have f: "\<lfloor>valof (float64_of_rat (35 / 100)) * 100\<rfloor> = 34"
    using float64_mul_35 by blast
  from unit_35 d f show ?thesis by (simp only: h)
qed

text \<open>
  C2, amended. For a provider-B response whose fractional humidity and cloud cover lie in
  the unit interval, \<open>DSToWeather\<close> returns a record whose humidity and cloudiness are
  the floors of the float64 products of the fractions with 100, that is, of the exact
  products rounded to the nearest float64; both are from 0 to 100.
\<close>

theorem DSToWeather_percent:
  "in_unit_interval (Currently.Humidity (Currently f)) \<longrightarrow>
   in_unit_interval (CloudCover (Currently f)) \<longrightarrow>
     (\<exists>r. DSToWeather pf (Some f) = Inr r
        \<and> Humidity r = \<lfloor>valof (float64_mul (Currently.Humidity (Currently f)) (Finite False 100))\<rfloor>
        \<and> Cloudiness r = \<lfloor>valof (float64_mul (CloudCover (Currently f)) (Finite False 100))\<rfloor>
        \<and> 0 \<le> Humidity r \<and> Humidity r \<le> 100
        \<and> 0 \<le> Cloudiness r \<and> Cloudiness r \<le> 100)"
proof (intro impI)
  assume h: "in_unit_interval (Currently.Humidity (Currently f))"
    and c: "in_unit_interval (CloudCover (Currently f))"
  show "\<exists>r. DSToWeather pf (Some f) = Inr r
        \<and> Humidity r = \<lfloor>valof (float64_mul (Currently.Humidity (Currently f)) (Finite False 100))\<rfloor>
        \<and> Cloudiness r = \<lfloor>valof (float64_mul (CloudCover (Currently f)) (Finite False 100))\<rfloor>
        \<and> 0 \<le> Humidity r \<and> Humidity r \<le> 100
        \<and> 0 \<le> Cloudiness r \<and> Cloudiness r \<le> 100"
    using percent_of_unit[OF h, of pf] percent_of_unit[OF c, of pf]
    by (simp add: DSToWeather_Some)
qed

theorem DSToWeather_percent_witness:
  "in_unit_interval (Currently.Humidity (Currently scenario_ds))
   \<and> in_unit_interval (CloudCover (Currently scenario_ds))
   \<and> (\<exists>r. DSToWeather amd64 (Some scenario_ds) = Inr r \<and> Humidity r = 55 \<and> Cloudiness r = 90)"
proof -
  have h: "Currently.Humidity (Currently scenario_ds) = float64_of_rat (55 / 100)"
    and c: "CloudCover (Currently scenario_ds) = float64_of_rat (9 / 10)"
    by (simp_all add: scenario_ds_def)
  have m: "float64_mul (float64_of_rat (55 / 100)) (Finite False 100) = Finite False (7740561859543041 / 2 ^ 47)"
    "float64_mul (float64_of_rat (9 / 10)) (Finite False 100) = Finite False 90"
    using mul_55 mul_90 by (simp_all only: float64_of_rat_100)
  show ?thesis
    using DSToWeather_percent[of scenario_ds amd64] unit_55 unit_90 floor_55
    by (simp only: h c m) auto
qed

lemma DSToWeather_scenario: "DSToWeather pf (Some scenario_ds) = Inr scenario_ds_weather"
proof -
  have c: "Currently scenario_ds =
      zero_Currently
             \<lparr> Currently.Temperature := float64_of_rat 10,
               Currently.Pressure := float64_of_rat 1000,
               Currently.Humidity := float64_of_rat (55 / 100),
               Summary := ''Rain'',
               Currently.WindSpeed := float64_of_rat 2,
               WindBearing := 90,
               PrecipIntensity := float64_of_rat (3 / 10),
               CloudCover := float64_of_rat (9 / 10) \<rparr>"
    by (simp add: scenario_ds_def)
  show ?thesis
    unfolding DSToWeather_Some c scenario_ds_weather_def
    by (simp add: percent_55 percent_90 float64_of_int_90)
qed

text \<open>
  C3. \<open>DSToWeather\<close> copies the precipitation intensity into the rainfall unchanged; on
  the scenario input the record is the one of the specification.
\<close>

theorem DSToWeather_rainfall_copied:
  "(\<exists>r. DSToWeather pf (Some f) = Inr r \<and> Rainfall r = PrecipIntensity (Currently f))
   \<and> DSToWeather pf (Some scenario_ds) =
       Inr \<lparr> Temperature = float64_of_rat 10, Pressure = float64_of_rat 1000, Humidity = 55,
             Weather = ''Rain'', WindSpeed = float64_of_rat 2, WindDeg = float64_of_rat 90,
             Cloudiness = 90, Rainfall = float64_of_rat (3 / 10), Snowfall = Finite False 0,
             UV = Finite False 0 \<rparr>"
proof
  show "\<exists>r. DSToWeather pf (Some f) = Inr r \<and> Rainfall r = PrecipIntensity (Currently f)"
    by (simp add: DSToWeather_Some)
next
  show "DSToWeather pf (Some scenario_ds) =
       Inr \<lparr> Temperature = float64_of_rat 10, Pressure = float64_of_rat 1000, Humidity = 55,
             Weather = ''Rain'', WindSpeed = float64_of_rat 2, WindDeg = float64_of_rat 90,
             Cloudiness = 90, Rainfall = float64_of_rat (3 / 10), Snowfall = Finite False 0,
             UV = Finite False 0 \<rparr>"
    using DSToWeather_scenario[of pf] by (simp only: scenario_ds_weather_def)
qed

lemma scenario_weather: "OWMToWeather (Some scenario_owm) (Some scenario_uv) = Inr scenario_weather"
proof -
  have "float64_div (float64_of_rat (15 / 10)) (float64_of_rat 3) = float64_of_rat (5 / 10)"
    by (simp add: float64_of_rat_def to_float64_def round64_3 round64_3_2 round64_1_2)
  then show ?thesis
    by (simp add: OWMToWeather_Some scenario_weather_def scenario_owm_def scenario_uv_def)
qed

text \<open>
  C8. Whatever the input, a record that either adapter returns has a snowfall of zero, and
  a record that \<open>DSToWeather\<close> returns has a UV index of zero, also when the response has
  a \<open>uvIndex\<close> that is not zero.
\<close>

theorem adapters_leave_snowfall_zero:
  "(OWMToWeather w uv = Inr r \<longrightarrow> Snowfall r = Finite False 0)
   \<and> (DSToWeather pf f = Inr r' \<longrightarrow> Snowfall r' = Finite False 0 \<and> UV r' = Finite False 0)"
  by (auto simp add: OWMToWeather_def DSToWeather_def split: option.splits list.splits)

theorem adapters_leave_snowfall_zero_witness:
  "(\<exists>r. OWMToWeather (Some scenario_owm) (Some scenario_uv) = Inr r \<and> Snowfall r = Finite False 0)
   \<and> UVIndex (Currently uv_ds) = Finite False 7
   \<and> (\<exists>r. DSToWeather amd64 (Some uv_ds) = Inr r \<and> Snowfall r = Finite False 0
          \<and> UV r = Finite False 0)"
proof -
  obtain r where r: "OWMToWeather (Some scenario_owm) (Some scenario_uv) = Inr r"
    by (simp add: OWMToWeather_Some scenario_owm_def)
  obtain r' where r': "DSToWeather amd64 (Some uv_ds) = Inr r'"
    by (simp add: DSToWeather_Some)
  have u: "UVIndex (Currently uv_ds) = Finite False 7"
    by (simp add: uv_ds_def float64_of_rat_def to_float64_def round64_7)
  show ?thesis
    using adapters_leave_snowfall_zero[of "Some scenario_owm" "Some scenario_uv" r amd64 "Some uv_ds" r']
      r r' u by simp
qed

text \<open>
  C9, as stated, fails: the adapters do not check what they copy. A provider-A response
  with a humidity of 150 gives a record with a humidity of 150.
\<close>

theorem adapters_do_not_validate:
  "OWMToWeather (Some humid_owm) (Some scenario_uv) =
     Inr \<lparr> Temperature = float64_of_rat (152 / 10), Pressure = float64_of_rat 1013,
           Humidity = 150, Weather = ''Clouds'', WindSpeed = float64_of_rat (31 / 10),
           WindDeg = float64_of_rat 180, Cloudiness = 80,
           Rainfall = float64_of_rat (5 / 10), Snowfall = Finite False 0,
           UV = float64_of_rat (42 / 10) \<rparr>
   \<and> \<not> percentage 150"
proof -
  have "float64_div (float64_of_rat (15 / 10)) (float64_of_rat 3) = float64_of_rat (5 / 10)"
    by (simp add: float64_of_rat_def to_float64_def round64_3 round64_3_2 round64_1_2)
  then show ?thesis
    by (simp add: OWMToWeather_Some humid_owm_def scenario_owm_def scenario_uv_def percentage_def)
qed

text \<open>
  C9, amended. When the humidity and the cloudiness of a provider-A response are
  percentages, and when the humidity and the cloud cover of a provider-B response are
  fractions from 0 to 1, the humidity and the cloudiness of the record are percentages.
\<close>

theorem adapters_keep_percentages:
  "(percentage (owm_Main.Humidity (Main d)) \<longrightarrow> percentage (All' (Clouds d)) \<longrightarrow>
      OWMToWeather (Some d) uv = Inr r \<longrightarrow> percentage (Humidity r) \<and> percentage (Cloudiness r))
   \<and> (in_unit_interval (Currently.Humidity (Currently f)) \<longrightarrow>
        in_unit_interval (CloudCover (Currently f)) \<longrightarrow>
        DSToWeather pf (Some f) = Inr r' \<longrightarrow> percentage (Humidity r') \<and> percentage (Cloudiness r'))"
proof
  show "percentage (owm_Main.Humidity (Main d)) \<longrightarrow> percentage (All' (Clouds d)) \<longrightarrow>
      OWMToWeather (Some d) uv = Inr r \<longrightarrow> percentage (Humidity r) \<and> percentage (Cloudiness r)"
    by (auto simp add: OWMToWeather_def split: option.splits list.splits)
next
  show "in_unit_interval (Currently.Humidity (Currently f)) \<longrightarrow>
        in_unit_interval (CloudCover (Currently f)) \<longrightarrow>
        DSToWeather pf (Some f) = Inr r' \<longrightarrow> percentage (Humidity r') \<and> percentage (Cloudiness r')"
  proof (intro impI)
    assume h: "in_unit_interval (Currently.Humidity (Currently f))"
      and c: "in_unit_interval (CloudCover (Currently f))"
      and r: "DSToWeather pf (Some f) = Inr r'"
    from r have "Humidity r' = int_of_float64 pf (float64_mul (Currently.Humidity (Currently f)) (float64_of_rat 100))"
      and "Cloudiness r' = int_of_float64 pf (float64_mul (CloudCover (Currently f)) (float64_of_rat 100))"
      by (auto simp add: DSToWeather_Some)
    then show "percentage (Humidity r') \<and> percentage (Cloudiness r')"
      using percent_of_unit(2,3)[OF h, of pf] percent_of_unit(2,3)[OF c, of pf]
      by (simp add: percentage_def)
  qed
qed

theorem adapters_keep_percentages_witness:
  "percentage (owm_Main.Humidity (Main scenario_owm)) \<and> percentage (All' (Clouds scenario_owm))
   \<and> (\<exists>r. OWMToWeather (Some scenario_owm) (Some scenario_uv) = Inr r
         \<and> percentage (Humidity r) \<and> percentage (Cloudiness r))
   \<and> in_unit_interval (Currently.Humidity (Currently scenario_ds))
   \<and> in_unit_interval (CloudCover (Currently scenario_ds))
   \<and> (\<exists>r. DSToWeather amd64 (Some scenario_ds) = Inr r
         \<and> percentage (Humidity r) \<and> percentage (Cloudiness r))"
proof -
  obtain r where r: "OWMToWeather (Some scenario_owm) (Some scenario_uv) = Inr r"
    by (simp add: OWMToWeather_Some scenario_owm_def)
  obtain r' where r': "DSToWeather amd64 (Some scenario_ds) = Inr r'"
    by (simp add: DSToWeather_Some)
  have p: "percentage (owm_Main.Humidity (Main scenario_owm))" "percentage (All' (Clouds scenario_owm))"
    by (simp_all add: scenario_owm_def percentage_def)
  have u: "in_unit_interval (Currently.Humidity (Currently scenario_ds))"
    "in_unit_interval (CloudCover (Currently scenario_ds))"
    using unit_55 unit_90 by (simp_all add: scenario_ds_def)
  show ?thesis
    using adapters_keep_percentages[of scenario_owm "Some scenario_uv" r scenario_ds amd64 r'] r r' p u
    by simp
qed

text \<open>
  C10. \<open>OWMToWeather\<close> indexes the weather array at 0 without a guard. With an empty
  array it panics: with index out of range when both pointers are set, and with some
  panic whatever the UV pointer. With both pointers set it returns a record exactly when
  the array is not empty.
\<close>

theorem OWMToWeather_empty_weather_panics:
  "(owm_CurrentWeatherData.Weather d = [] \<longrightarrow>
      OWMToWeather (Some d) (Some u) = Inl index_out_of_range
      \<and> (\<exists>p. OWMToWeather (Some d) uv = Inl p))
   \<and> ((\<exists>r. OWMToWeather (Some d) (Some u) = Inr r) \<longleftrightarrow> owm_CurrentWeatherData.Weather d \<noteq> [])"
  by (cases "owm_CurrentWeatherData.Weather d") (simp_all add: OWMToWeather_def)

theorem OWMToWeather_empty_weather_panics_witness:
  "owm_CurrentWeatherData.Weather no_weather_owm = []
   \<and> OWMToWeather (Some no_weather_owm) (Some scenario_uv) = Inl index_out_of_range
   \<and> (\<exists>p. OWMToWeather (Some no_weather_owm) None = Inl p)
   \<and> owm_CurrentWeatherData.Weather scenario_owm \<noteq> []"
  using OWMToWeather_empty_weather_panics[of no_weather_owm scenario_uv None]
  by (simp add: no_weather_owm_def scenario_owm_def)

section \<open>The recorder\<close>

lemma checkValue_openweathermap: "checkValue ''openweathermap''"
  by (simp add: checkValue_def)

lemma checkValue_darksky: "checkValue ''darksky''"
  by (simp add: checkValue_def)

lemma not_checkValue_tab_id: "\<not> checkValue tab_id"
  by (simp add: checkValue_def tab_id_def)

text \<open>
  C4, as stated, fails: for a source identifier that is not a valid tag value, here one
  with a tab character, \<open>RecordMeasurement\<close> logs the failure of the tagging, returns the
  error and submits no measurement.
\<close>

theorem RecordMeasurement_invalid_id:
  "RecordMeasurement tab_id (Some scenario_weather) idle =
     Inr (Some errInvalidValue,
          idle\<lparr> logged := [Errorf ''failed to insert key: %v'' errInvalidValue] \<rparr>)
   \<and> recorded (idle\<lparr> logged := [Errorf ''failed to insert key: %v'' errInvalidValue] \<rparr>) = []"
  using not_checkValue_tab_id
  by (simp add: RecordMeasurement_def tag_New_Upsert_def idle_def)

text \<open>
  C4, amended. For every Weather record and every source identifier for which the tagging
  succeeds, \<open>RecordMeasurement\<close> submits one batch, with the context that the tagging
  gave, of exactly four measurements: temperature, pressure, humidity as int64 and wind
  speed. The tagging succeeds for every identifier that is a valid tag value (at most 255
  bytes, each a printable ASCII character), as the two identifiers of the poll loop are,
  and the context then has the one tag \<open>node_id\<close> with the identifier. When the tagging
  fails, \<open>RecordMeasurement\<close> logs and returns its error and submits nothing.
\<close>

theorem RecordMeasurement_four_measurements:
  "(tag_New_Upsert KeyNodeId id' = Inr ctx \<longrightarrow>
      RecordMeasurement id' (Some w) s =
        Inr (None,
             s\<lparr> recorded := recorded s @
                  [\<lparr> tags = ctx,
                     measurements =
                       [Float64M MTemperature (Temperature w), Float64M MPressure (Pressure w),
                        Int64M MHumidity (int64_of_int (Humidity w)),
                        Float64M MWindSpeed (WindSpeed w)] \<rparr>] \<rparr>))
   \<and> int64_of_int (Humidity w) = Humidity w
   \<and> map name [MTemperature, MPressure, MHumidity, MWindSpeed] =
        [''temperature'', ''pressure'', ''humidity'', ''windspeed'']
   \<and> (tag_New_Upsert KeyNodeId id' = Inl err \<longrightarrow>
        RecordMeasurement id' (Some w) s =
          Inr (Some err, s\<lparr> logged := logged s @ [Errorf ''failed to insert key: %v'' err] \<rparr>))
   \<and> (checkValue id' \<longrightarrow> tag_New_Upsert KeyNodeId id' = Inr [(''node_id'', id')])
   \<and> checkValue ''openweathermap'' \<and> checkValue ''darksky''"
  by (simp add: RecordMeasurement_def tag_New_Upsert_def KeyNodeId_def int64_of_int_def
      MTemperature_def MPressure_def MHumidity_def MWindSpeed_def MeasureTemperature_def
      MeasurePressure_def MeasureHumidity_def MeasureWindSpeed_def
      checkValue_openweathermap checkValue_darksky)

theorem RecordMeasurement_four_measurements_witness:
  "checkValue ''openweathermap''
   \<and> tag_New_Upsert KeyNodeId ''openweathermap'' = Inr [(''node_id'', ''openweathermap'')]
   \<and> RecordMeasurement ''openweathermap'' (Some scenario_weather) idle =
       Inr (None,
            idle\<lparr> recorded :=
                    [\<lparr> tags = [(''node_id'', ''openweathermap'')],
                       measurements =
                         [Float64M MTemperature (float64_of_rat (152 / 10)),
                          Float64M MPressure (float64_of_rat 1013),
                          Int64M MHumidity 60,
                          Float64M MWindSpeed (float64_of_rat (31 / 10))] \<rparr>] \<rparr>)
   \<and> tag_New_Upsert KeyNodeId tab_id = Inl errInvalidValue
   \<and> RecordMeasurement tab_id (Some scenario_weather) idle =
       Inr (Some errInvalidValue,
            idle\<lparr> logged := [Errorf ''failed to insert key: %v'' errInvalidValue] \<rparr>)"
proof -
  have a: "tag_New_Upsert KeyNodeId ''openweathermap'' = Inr [(''node_id'', ''openweathermap'')]"
    using checkValue_openweathermap by (simp add: tag_New_Upsert_def KeyNodeId_def)
  have b: "tag_New_Upsert KeyNodeId tab_id = Inl errInvalidValue"
    using not_checkValue_tab_id by (simp add: tag_New_Upsert_def)
  have l: "logged idle = []" "recorded idle = []" by (simp_all add: idle_def)
  show ?thesis
    using RecordMeasurement_four_measurements[of "''openweathermap''"
        "[(''node_id'', ''openweathermap'')]" scenario_weather idle]
      RecordMeasurement_four_measurements[of tab_id _ scenario_weather idle errInvalidValue]
      a b l
    by (simp add: scenario_weather_def)
qed

section \<open>The poll loop and the initialisation\<close>

lemma to_float64_scenario:
  "to_float64 False 10 = Finite False (round64 10)"
  "to_float64 False 1000 = Finite False (round64 1000)"
  "to_float64 False (11 / 20) = Finite False (round64 (11 / 20))"
  "to_float64 False 2 = Finite False (round64 2)"
  "to_float64 False (3 / 10) = Finite False (round64 (3 / 10))"
  "to_float64 False (9 / 10) = Finite False (round64 (9 / 10))"
  by (simp_all add: to_float64_small)

lemma Decode_scenario_body: "Decode pf (Inr scenario_body) zero_DarkSkyForecast = Inr scenario_ds"
  by (cases "int_size pf")
    (simp_all add: Decode_def scenario_body_def scenario_ds_def decode_DarkSkyForecast_member_def
      decode_Currently_member_def field_matches_def caseMask_def to_float64_scenario
      float64_of_rat_def zero_DarkSkyForecast_def zero_Currently_def in_range_def)

lemma RecordMeasurement_valid:
  "checkValue id' \<Longrightarrow>
     RecordMeasurement id' (Some w) s =
       Inr (None,
            s\<lparr> recorded := recorded s @
                 [\<lparr> tags = [(''node_id'', id')],
                    measurements =
                      [Float64M MTemperature (Temperature w), Float64M MPressure (Pressure w),
                       Int64M MHumidity (Humidity w), Float64M MWindSpeed (WindSpeed w)] \<rparr>] \<rparr>)"
  by (simp add: RecordMeasurement_def tag_New_Upsert_def KeyNodeId_def int64_of_int_def)

lemma main_loop_stopped: "status s \<noteq> Running \<Longrightarrow> main_loop pf ts s = s"
  by (cases ts) simp_all

lemma main_go_loop_stopped: "status s \<noteq> Running \<Longrightarrow> main_go_loop pf ts s = s"
  by (cases ts) simp_all

text \<open>
  C5, as stated, fails for \<open>main.go\<close>: there a failed DarkSky fetch ends the process
  (\<open>log.Fatalf\<close>), and the OpenWeatherMap tick that follows is not served.
\<close>

theorem main_go_fetch_failure_exits:
  "status (main_go_loop amd64 [dsTicker (Inl fetch_error), owmTicker None scenario_owm] idle) = Exited 1
   \<and> printed (main_go_loop amd64 [dsTicker (Inl fetch_error), owmTicker None scenario_owm] idle) = []"
  by (simp add: main_go_CallDarkSkyForecast_def idle_def)

text \<open>
  C5, amended. In the program that records metrics, a failed fetch on either path is
  logged, nothing is recorded for the tick, the process keeps running and the loop serves
  the ticks that follow. In \<open>main.go\<close> a failed DarkSky fetch is logged by \<open>log.Fatalf\<close>
  and ends the process with exit status 1.
\<close>

theorem fetch_failure_skips_tick:
  "status s = Running \<longrightarrow>
     main_loop pf (owmTicker (Some e) d # ts) s =
       main_loop pf ts
         (s\<lparr> owmw := d,
             logged := logged s @
               [Errorf ''failed to call current data from OpenWeatherMap: %v'' e] \<rparr>)
     \<and> main_loop pf (dsTicker (Inl e) # ts) s =
         main_loop pf ts
           (s\<lparr> logged := logged s @
                 [Errorf ''failed to call DarkSky forecast API: %s'' e,
                  Errorf ''failed to call DarkSky: %v'' e] \<rparr>)
     \<and> status (main_select pf (owmTicker (Some e) d) s) = Running
     \<and> recorded (main_select pf (owmTicker (Some e) d) s) = recorded s
     \<and> status (main_select pf (dsTicker (Inl e)) s) = Running
     \<and> recorded (main_select pf (dsTicker (Inl e)) s) = recorded s
     \<and> main_go_loop pf (dsTicker (Inl e) # ts) s =
         s\<lparr> logged := logged s @ [Fatalf ''failed to call DarkSky forecast API: %s'' e],
            status := Exited 1 \<rparr>"
  by (simp add: CallDarkSkyForecast_def main_go_CallDarkSkyForecast_def main_go_loop_stopped Let_def)

theorem fetch_failure_skips_tick_witness:
  "status idle = Running
   \<and> main_loop amd64 [dsTicker (Inl fetch_error), owmTicker None scenario_owm] idle =
       idle\<lparr> logged :=
               [Errorf ''failed to call DarkSky forecast API: %s'' fetch_error,
                Errorf ''failed to call DarkSky: %v'' fetch_error],
             recorded :=
               [\<lparr> tags = [(''node_id'', ''openweathermap'')],
                  measurements =
                    [Float64M MTemperature (float64_of_rat (152 / 10)),
                     Float64M MPressure (float64_of_rat 1013),
                     Int64M MHumidity 60,
                     Float64M MWindSpeed (float64_of_rat (31 / 10))] \<rparr>] \<rparr>
   \<and> main_loop amd64
         [owmTicker (Some fetch_error) scenario_owm,
          dsTicker (Inr \<lparr> StatusCode = 200, Body = Inr scenario_body \<rparr>)] idle =
       idle\<lparr> logged := [Errorf ''failed to call current data from OpenWeatherMap: %v'' fetch_error],
             recorded :=
               [\<lparr> tags = [(''node_id'', ''darksky'')],
                  measurements =
                    [Float64M MTemperature (float64_of_rat 10),
                     Float64M MPressure (float64_of_rat 1000),
                     Int64M MHumidity 55,
                     Float64M MWindSpeed (float64_of_rat 2)] \<rparr>] \<rparr>"
proof -
  have s: "status idle = Running" by (simp add: idle_def)
  have o: "owmw idle = scenario_owm" "owmuv idle = scenario_uv" "logged idle = []" "recorded idle = []"
    by (simp_all add: idle_def)
  have i: "idle\<lparr> owmw := scenario_owm \<rparr> = idle" by (simp add: idle_def)
  have a: "main_loop amd64 [dsTicker (Inl fetch_error), owmTicker None scenario_owm] idle =
       idle\<lparr> logged :=
               [Errorf ''failed to call DarkSky forecast API: %s'' fetch_error,
                Errorf ''failed to call DarkSky: %v'' fetch_error],
             recorded :=
               [\<lparr> tags = [(''node_id'', ''openweathermap'')],
                  measurements =
                    [Float64M MTemperature (float64_of_rat (152 / 10)),
                     Float64M MPressure (float64_of_rat 1013),
                     Int64M MHumidity 60,
                     Float64M MWindSpeed (float64_of_rat (31 / 10))] \<rparr>] \<rparr>"
  proof -
    from fetch_failure_skips_tick[of idle amd64 fetch_error scenario_owm "[owmTicker None scenario_owm]"] s
    have h: "main_loop amd64 [dsTicker (Inl fetch_error), owmTicker None scenario_owm] idle =
        main_loop amd64 [owmTicker None scenario_owm]
          (idle\<lparr> logged := logged idle @
                  [Errorf ''failed to call DarkSky forecast API: %s'' fetch_error,
                   Errorf ''failed to call DarkSky: %v'' fetch_error] \<rparr>)"
      by blast
    show ?thesis
      unfolding h
      by (simp add: scenario_weather RecordMeasurement_valid checkValue_openweathermap s o
          scenario_weather_def)
  qed
  have b: "main_loop amd64
         [owmTicker (Some fetch_error) scenario_owm,
          dsTicker (Inr \<lparr> StatusCode = 200, Body = Inr scenario_body \<rparr>)] idle =
       idle\<lparr> logged := [Errorf ''failed to call current data from OpenWeatherMap: %v'' fetch_error],
             recorded :=
               [\<lparr> tags = [(''node_id'', ''darksky'')],
                  measurements =
                    [Float64M MTemperature (float64_of_rat 10),
                     Float64M MPressure (float64_of_rat 1000),
                     Int64M MHumidity 55,
                     Float64M MWindSpeed (float64_of_rat 2)] \<rparr>] \<rparr>"
  proof -
    from fetch_failure_skips_tick[of idle amd64 fetch_error scenario_owm
        "[dsTicker (Inr \<lparr> StatusCode = 200, Body = Inr scenario_body \<rparr>)]"] s
    have h: "main_loop amd64
        [owmTicker (Some fetch_error) scenario_owm,
         dsTicker (Inr \<lparr> StatusCode = 200, Body = Inr scenario_body \<rparr>)] idle =
        main_loop amd64 [dsTicker (Inr \<lparr> StatusCode = 200, Body = Inr scenario_body \<rparr>)]
          (idle\<lparr> owmw := scenario_owm,
                logged := logged idle @
                  [Errorf ''failed to call current data from OpenWeatherMap: %v'' fetch_error] \<rparr>)"
      by blast
    show ?thesis
      unfolding h
      by (simp add: CallDarkSkyForecast_def Decode_scenario_body DSToWeather_scenario
          RecordMeasurement_valid checkValue_darksky s o i scenario_ds_weather_def)
  qed
  from s a b show ?thesis by blast
qed

text \<open>
  C7. \<open>InitOpenWeatherMap\<close> drops the errors of its two first fetches: when both
  \<open>w.CurrentByCoordinates\<close> and \<open>uv.Current\<close> fail, it logs nothing and returns the two
  clients with no error. The function of \<open>main.go\<close> does the same.
\<close>

theorem InitOpenWeatherMap_drops_fetch_errors:
  "fst (CurrentByCoordinates failing_init) = Some fetch_error
   \<and> fst (Current failing_init) = Some fetch_error
   \<and> InitOpenWeatherMap failing_init idle = (Inr (scenario_owm, scenario_uv), idle)
   \<and> logged idle = []
   \<and> main_go_InitOpenWeatherMap failing_init idle = Inr (scenario_owm, scenario_uv)"
  by (simp add: InitOpenWeatherMap_def main_go_InitOpenWeatherMap_def failing_init_def idle_def)

section \<open>Decoding the DarkSky response\<close>

lemma decode_member_keeps_Currently:
  "\<not> field_matches ''currently'' (fst kv) \<Longrightarrow>
     Currently (fst (decode_DarkSkyForecast_member pf acc kv)) = Currently (fst acc)"
  by (simp add: decode_DarkSkyForecast_member_def Let_def split: prod.splits)

lemma decode_members_keep_Currently:
  "list_all (\<lambda>kv. \<not> field_matches ''currently'' (fst kv)) ms \<Longrightarrow>
     Currently (fst (foldl (decode_DarkSkyForecast_member pf) acc ms)) = Currently (fst acc)"
  by (induction ms arbitrary: acc) (simp_all add: decode_member_keeps_Currently)

lemma Decode_without_currently:
  assumes "list_all (\<lambda>kv. \<not> field_matches ''currently'' (fst kv)) ms"
    and "Decode pf (Inr (JObject ms)) f0 = Inr f"
  shows "Currently f = Currently f0"
proof -
  obtain f' e' where d: "decode_DarkSkyForecast pf (JObject ms) (f0, None) = (f', e')"
    by (cases "decode_DarkSkyForecast pf (JObject ms) (f0, None)")
  with assms(2) have "f' = f" by (cases e') (simp_all add: Decode_def)
  moreover have "Currently f' = Currently f0"
    using decode_members_keep_Currently[OF assms(1), of pf "(f0, None)"] d by simp
  ultimately show ?thesis by simp
qed

lemma field_matches_simps:
  "field_matches ''latitude'' ''latitude''"
  "\<not> field_matches ''latitude'' ''longitude''"
  "\<not> field_matches ''latitude'' ''timezone''"
  "\<not> field_matches ''latitude'' ''currently''"
  "field_matches ''longitude'' ''longitude''"
  "\<not> field_matches ''longitude'' ''timezone''"
  "\<not> field_matches ''longitude'' ''currently''"
  "field_matches ''timezone'' ''timezone''"
  "\<not> field_matches ''timezone'' ''currently''"
  "field_matches ''currently'' ''currently''"
  "\<not> field_matches ''currently'' ''latitude''"
  "\<not> field_matches ''currently'' ''longitude''"
  "\<not> field_matches ''currently'' ''timezone''"
  by (simp_all add: field_matches_def caseMask_def)

lemma Decode_without_currently_value:
  "Decode pf (Inr without_currently) zero_DarkSkyForecast =
     Inr (zero_DarkSkyForecast
            \<lparr> Latitude := Finite False (5018980309727707 / 2 ^ 47),
              Longitude := Finite False (4915390481423768 / 2 ^ 45),
              TimeZone := ''Asia/Tokyo'' \<rparr>)"
  by (simp add: Decode_def without_currently_def decode_DarkSkyForecast_member_def
      field_matches_simps to_float64_def round64_latitude round64_longitude)

lemma Decode_currently_mistyped:
  "Decode pf (Inr currently_mistyped) zero_DarkSkyForecast =
     Inl (UnmarshalTypeError ''string'' ''struct'')"
  by (simp add: Decode_def currently_mistyped_def decode_DarkSkyForecast_member_def
      field_matches_simps to_float64_def round64_latitude saveError_def)

text \<open>
  C6, as stated, fails: a body without a \<open>currently\<close> member is not a decode failure.
  The call returns a forecast whose \<open>Currently\<close> block is all zero, and logs nothing.
\<close>

theorem CallDarkSkyForecast_missing_currently:
  "CallDarkSkyForecast amd64 (Inr \<lparr> StatusCode = 200, Body = Inr without_currently \<rparr>) idle =
     (Inr (zero_DarkSkyForecast
             \<lparr> Latitude := Finite False (5018980309727707 / 2 ^ 47),
               Longitude := Finite False (4915390481423768 / 2 ^ 45),
               TimeZone := ''Asia/Tokyo'' \<rparr>),
      idle)
   \<and> logged idle = []"
  by (simp add: CallDarkSkyForecast_def Decode_without_currently_value idle_def)

text \<open>
  C6, amended. When the decoder fails on the body (the body cannot be read, is not JSON,
  or holds a value of the wrong type), \<open>CallDarkSkyForecast\<close> logs that the response
  could not be decoded, which is not the entry of a failed fetch, and returns the
  decoder's error. A body that is an object with no \<open>currently\<close> member is no such
  failure: when the call succeeds on it, nothing is logged and the \<open>Currently\<close> block of
  the forecast is all zero.
\<close>

theorem CallDarkSkyForecast_decode_failure:
  "(Decode pf (Body resp) zero_DarkSkyForecast = Inl e \<longrightarrow>
      CallDarkSkyForecast pf (Inr resp) s =
        (Inl e, s\<lparr> logged := logged s @ [Errorf ''failed to decode DarkSky reponse: %s'' e] \<rparr>))
   \<and> (Body resp = Inl e \<longrightarrow> Decode pf (Body resp) zero_DarkSkyForecast = Inl e)
   \<and> CallDarkSkyForecast pf (Inl e) s =
       (Inl e, s\<lparr> logged := logged s @ [Errorf ''failed to call DarkSky forecast API: %s'' e] \<rparr>)
   \<and> (Body resp = Inr (JObject ms) \<longrightarrow>
        list_all (\<lambda>kv. \<not> field_matches ''currently'' (fst kv)) ms \<longrightarrow>
        CallDarkSkyForecast pf (Inr resp) s = (Inr f, s') \<longrightarrow>
        Currently f = zero_Currently \<and> s' = s)"
proof (intro conjI impI)
  assume "Decode pf (Body resp) zero_DarkSkyForecast = Inl e"
  then show "CallDarkSkyForecast pf (Inr resp) s =
        (Inl e, s\<lparr> logged := logged s @ [Errorf ''failed to decode DarkSky reponse: %s'' e] \<rparr>)"
    by (simp add: CallDarkSkyForecast_def)
next
  assume "Body resp = Inl e"
  then show "Decode pf (Body resp) zero_DarkSkyForecast = Inl e"
    by (simp add: Decode_def)
next
  show "CallDarkSkyForecast pf (Inl e) s =
       (Inl e, s\<lparr> logged := logged s @ [Errorf ''failed to call DarkSky forecast API: %s'' e] \<rparr>)"
    by (simp add: CallDarkSkyForecast_def)
next
  assume b: "Body resp = Inr (JObject ms)"
    and m: "list_all (\<lambda>kv. \<not> field_matches ''currently'' (fst kv)) ms"
    and c: "CallDarkSkyForecast pf (Inr resp) s = (Inr f, s')"
  from c have d: "Decode pf (Inr (JObject ms)) zero_DarkSkyForecast = Inr f" and s: "s' = s"
    by (auto simp add: CallDarkSkyForecast_def b split: sum.splits)
  from Decode_without_currently[OF m d] show "Currently f = zero_Currently"
    by (simp add: zero_DarkSkyForecast_def)
  from s show "s' = s" .
qed

theorem CallDarkSkyForecast_decode_failure_witness:
  "CallDarkSkyForecast amd64 (Inr \<lparr> StatusCode = 200, Body = Inr currently_mistyped \<rparr>) idle =
     (Inl (UnmarshalTypeError ''string'' ''struct''),
      idle\<lparr> logged :=
              [Errorf ''failed to decode DarkSky reponse: %s''
                 (UnmarshalTypeError ''string'' ''struct'')] \<rparr>)
   \<and> CallDarkSkyForecast amd64 (Inr \<lparr> StatusCode = 200, Body = Inl (Err ''unexpected EOF'') \<rparr>) idle =
       (Inl (Err ''unexpected EOF''),
        idle\<lparr> logged := [Errorf ''failed to decode DarkSky reponse: %s'' (Err ''unexpected EOF'')] \<rparr>)
   \<and> CallDarkSkyForecast amd64 (Inl fetch_error) idle =
       (Inl fetch_error, idle\<lparr> logged := [Errorf ''failed to call DarkSky forecast API: %s'' fetch_error] \<rparr>)
   \<and> (\<exists>f. CallDarkSkyForecast amd64 (Inr \<lparr> StatusCode = 200, Body = Inr without_currently \<rparr>) idle =
             (Inr f, idle)
          \<and> Currently f = zero_Currently)"
proof -
  let ?mistyped = "\<lparr> StatusCode = 200, Body = Inr currently_mistyped \<rparr>"
  let ?broken = "\<lparr> StatusCode = 200, Body = Inl (Err ''unexpected EOF'') \<rparr>"
  let ?without = "\<lparr> StatusCode = 200, Body = Inr without_currently \<rparr>"
  let ?ms = "[(''latitude'', JNumber False (35662 / 1000) False),
              (''longitude'', JNumber False (1397038 / 10000) False),
              (''timezone'', JString ''Asia/Tokyo'')]"
  let ?f = "zero_DarkSkyForecast
              \<lparr> Latitude := Finite False (5018980309727707 / 2 ^ 47),
                Longitude := Finite False (4915390481423768 / 2 ^ 45),
                TimeZone := ''Asia/Tokyo'' \<rparr>"
  have l: "logged idle = []" by (simp add: idle_def)
  have a: "Decode amd64 (Body ?mistyped) zero_DarkSkyForecast = Inl (UnmarshalTypeError ''string'' ''struct'')"
    by (simp add: Decode_currently_mistyped)
  have b: "Body ?broken = Inl (Err ''unexpected EOF'')" by simp
  have c: "Body ?without = Inr (JObject ?ms)" by (simp add: without_currently_def)
  have m: "list_all (\<lambda>kv. \<not> field_matches ''currently'' (fst kv)) ?ms"
    by (simp add: field_matches_simps)
  have w: "CallDarkSkyForecast amd64 (Inr ?without) idle = (Inr ?f, idle)"
    by (simp add: CallDarkSkyForecast_def Decode_without_currently_value)
  have 1: "CallDarkSkyForecast amd64 (Inr ?mistyped) idle =
     (Inl (UnmarshalTypeError ''string'' ''struct''),
      idle\<lparr> logged :=
              [Errorf ''failed to decode DarkSky reponse: %s''
                 (UnmarshalTypeError ''string'' ''struct'')] \<rparr>)"
    using CallDarkSkyForecast_decode_failure[of amd64 ?mistyped "UnmarshalTypeError ''string'' ''struct''" idle]
      a l by simp
  have 2: "CallDarkSkyForecast amd64 (Inr ?broken) idle =
       (Inl (Err ''unexpected EOF''),
        idle\<lparr> logged := [Errorf ''failed to decode DarkSky reponse: %s'' (Err ''unexpected EOF'')] \<rparr>)"
    using CallDarkSkyForecast_decode_failure[of amd64 ?broken "Err ''unexpected EOF''" idle] b l
    by simp
  have 3: "CallDarkSkyForecast amd64 (Inl fetch_error) idle =
       (Inl fetch_error, idle\<lparr> logged := [Errorf ''failed to call DarkSky forecast API: %s'' fetch_error] \<rparr>)"
    using CallDarkSkyForecast_decode_failure[of amd64 ?broken fetch_error idle] l by simp
  have 4: "Currently ?f = zero_Currently"
    using CallDarkSkyForecast_decode_failure[of amd64 ?without _ idle ?ms ?f idle] c m w by blast
  from 1 2 3 4 w show ?thesis by blast
qed

end
